theory Spec2Isabelle
  imports Complex_Main
begin

section \<open>Order-flow tracker with Heikin-Ashi flags\<close>

text \<open>
  A shallow embedding of \<^verbatim>\<open>src/OrderF_HAFlags.py\<close> (Heikin-Ashi colour, windowed
  order-flow metrics, trade-setup alerts) and of \<^verbatim>\<open>src/trade_exhaust2.py\<close>
  (cumulative volume delta). Both files declare a class \<^verbatim>\<open>OrderFlowTracker\<close>;
  the definitions taken from the second file carry the suffix \<open>_cvd\<close>.

  Python floats are read as real numbers throughout (no rounding error, no infinities,
  no NaN); Python integers are \<open>int\<close>.
\<close>

subsection \<open>Thresholds (OrderF\_HAFlags.py, lines 10-13)\<close>

definition GREEN_ZONE_THRESHOLD :: real where
  "GREEN_ZONE_THRESHOLD = 55 / 100"

definition RED_ZONE_THRESHOLD :: real where
  "RED_ZONE_THRESHOLD = 35 / 100"

definition CONSOLIDATION_WATCH_PERIOD :: int where
  "CONSOLIDATION_WATCH_PERIOD = 3"

definition ALERT_COOLDOWN_PERIOD :: int where
  "ALERT_COOLDOWN_PERIOD = 5"

subsection \<open>Python values, errors and library functions\<close>

text \<open>
  The scalar values a decoded JSON message can hold. Dictionaries are maps from key
  strings to such values.
\<close>

datatype pyval = PyNone | PyBool bool | PyInt int | PyFloat real | PyStr string

type_synonym pydict = "string \<rightharpoonup> pyval"

datatype error = KeyError | ValueError | TypeError | IndexError | OverflowError

text \<open>
  What the code uses of the Python library and does not define itself: \<^verbatim>\<open>int\<close> and
  \<^verbatim>\<open>float\<close> on a string (\<open>None\<close> stands for the \<^verbatim>\<open>ValueError\<close> of a string
  that does not parse), and the formatting of a millisecond timestamp by
  \<^verbatim>\<open>datetime.utcfromtimestamp\<close> and \<^verbatim>\<open>strftime\<close>, which raises out of the
  platform's range. They are parameters of the model.
\<close>

record pylib =
  str_int :: "string \<Rightarrow> int option"
  str_float :: "string \<Rightarrow> real option"
  utc_stamp :: "int \<Rightarrow> error + string"

text \<open>\<^verbatim>\<open>int(v)\<close>: a float is truncated towards zero.\<close>

fun py_int :: "pylib \<Rightarrow> pyval \<Rightarrow> error + int" where
  "py_int L PyNone = Inl TypeError"
| "py_int L (PyBool b) = Inr (if b then 1 else 0)"
| "py_int L (PyInt i) = Inr i"
| "py_int L (PyFloat r) = Inr (if 0 \<le> r then \<lfloor>r\<rfloor> else \<lceil>r\<rceil>)"
| "py_int L (PyStr s) = (case str_int L s of None \<Rightarrow> Inl ValueError | Some i \<Rightarrow> Inr i)"

text \<open>\<^verbatim>\<open>float(v)\<close>.\<close>

fun py_float :: "pylib \<Rightarrow> pyval \<Rightarrow> error + real" where
  "py_float L PyNone = Inl TypeError"
| "py_float L (PyBool b) = Inr (if b then 1 else 0)"
| "py_float L (PyInt i) = Inr (of_int i)"
| "py_float L (PyFloat r) = Inr r"
| "py_float L (PyStr s) = (case str_float L s of None \<Rightarrow> Inl ValueError | Some r \<Rightarrow> Inr r)"

text \<open>\<^verbatim>\<open>d[k]\<close> raises \<^verbatim>\<open>KeyError\<close> on a missing key.\<close>

definition getitem :: "pydict \<Rightarrow> string \<Rightarrow> error + pyval" where
  "getitem d k = (case d k of None \<Rightarrow> Inl KeyError | Some v \<Rightarrow> Inr v)"

definition int_item :: "pylib \<Rightarrow> pydict \<Rightarrow> string \<Rightarrow> error + int" where
  "int_item L d k = (case getitem d k of Inl e \<Rightarrow> Inl e | Inr v \<Rightarrow> py_int L v)"

definition float_item :: "pylib \<Rightarrow> pydict \<Rightarrow> string \<Rightarrow> error + real" where
  "float_item L d k = (case getitem d k of Inl e \<Rightarrow> Inl e | Inr v \<Rightarrow> py_float L v)"

text \<open>The numeric value of a number, for \<^verbatim>\<open>==\<close> across \<^verbatim>\<open>bool\<close>, \<^verbatim>\<open>int\<close> and \<^verbatim>\<open>float\<close>.\<close>

fun py_number :: "pyval \<Rightarrow> real option" where
  "py_number (PyBool b) = Some (if b then 1 else 0)"
| "py_number (PyInt i) = Some (of_int i)"
| "py_number (PyFloat r) = Some r"
| "py_number v = None"

text \<open>\<^verbatim>\<open>a == b\<close>: numbers compare by value, strings with strings, \<^verbatim>\<open>None\<close> with itself.\<close>

fun py_eq :: "pyval \<Rightarrow> pyval \<Rightarrow> bool" where
  "py_eq PyNone PyNone = True"
| "py_eq (PyStr s) (PyStr t) = (s = t)"
| "py_eq a b = (case (py_number a, py_number b) of (Some x, Some y) \<Rightarrow> x = y | _ \<Rightarrow> False)"

text \<open>Truth value of \<^verbatim>\<open>d.get(k)\<close> in a condition; a missing key gives \<^verbatim>\<open>None\<close>.\<close>

fun py_truthy :: "pyval option \<Rightarrow> bool" where
  "py_truthy None = False"
| "py_truthy (Some PyNone) = False"
| "py_truthy (Some (PyBool b)) = b"
| "py_truthy (Some (PyInt i)) = (i \<noteq> 0)"
| "py_truthy (Some (PyFloat r)) = (r \<noteq> 0)"
| "py_truthy (Some (PyStr s)) = (s \<noteq> [])"

text \<open>
  \<^verbatim>\<open>round(x, n)\<close> on a float, read on the reals: the nearest multiple of \<open>10\<^sup>-\<^sup>n\<close>,
  a tie going to the even one.
\<close>

definition round_half_even :: "real \<Rightarrow> int" where
  "round_half_even y =
     (let f = \<lfloor>y\<rfloor>; d = y - of_int f
      in if d < 1 / 2 then f else if 1 / 2 < d then f + 1 else if even f then f else f + 1)"

definition py_round :: "real \<Rightarrow> nat \<Rightarrow> real" where
  "py_round x n = of_int (round_half_even (x * 10 ^ n)) / 10 ^ n"

subsection \<open>State of the tracker (OrderF\_HAFlags.py, lines 19-45)\<close>

text \<open>The dictionary \<^verbatim>\<open>output_data\<close> built for each processed candle (lines 160-169).\<close>

record output_data =
  utc :: string
  close_price :: real
  HA_open :: real
  HA_close :: real
  HA_color :: string
  agg_ratio :: real
  avg_bbo_imba :: real

text \<open>An entry of \<^verbatim>\<open>bbo_buffer\<close>, as \<^verbatim>\<open>handle_bbo_message\<close> builds it (line 224).\<close>

record bbo =
  ts :: int
  imbalance :: real

text \<open>
  The fields of \<^verbatim>\<open>OrderFlowTracker\<close> that candle processing reads or writes. The
  sockets, the locks and the depth-book dictionaries are left out.
\<close>

record tracker =
  trade_buffer :: "pydict list"
  bbo_buffer :: "bbo list"
  last_kline_start_time :: pyval
  last_ha_open :: "real option"
  last_ha_close :: "real option"
  ha_green_streak :: int
  consolidation_watch_countdown :: int
  alert_cooldown :: int
  last_candle_data :: "output_data option"

definition init_tracker :: tracker where
  "init_tracker =
     \<lparr>trade_buffer = [], bbo_buffer = [], last_kline_start_time = PyNone,
      last_ha_open = None, last_ha_close = None, ha_green_streak = 0,
      consolidation_watch_countdown = 0, alert_cooldown = 0, last_candle_data = None\<rparr>"

text \<open>What the code writes to the log.\<close>

datatype log =
    Info_candle output_data
  | Warn_strict_entry string
  | Warn_watch_entry string
  | Info_strict_failed
  | Info_watch_ended
  | Error_bbo

fun is_alert :: "log \<Rightarrow> bool" where
  "is_alert (Warn_strict_entry u) = True"
| "is_alert (Warn_watch_entry u) = True"
| "is_alert l = False"

subsection \<open>Setup detector (OrderF\_HAFlags.py, lines 48-115)\<close>

text \<open>
  \<^verbatim>\<open>_check_entry_conditions\<close>. The fourth test compares the close prices of the
  current and the previous record and then does nothing (\<^verbatim>\<open>pass\<close>).
\<close>

definition check_entry_conditions :: "tracker \<Rightarrow> output_data \<Rightarrow> bool" where
  "check_entry_conditions s current_data =
     (if HA_color current_data \<noteq> ''Green'' then False
      else if agg_ratio current_data < RED_ZONE_THRESHOLD
              \<or> avg_bbo_imba current_data < RED_ZONE_THRESHOLD then False
      else if agg_ratio current_data < GREEN_ZONE_THRESHOLD
              \<and> avg_bbo_imba current_data < GREEN_ZONE_THRESHOLD then False
      else (case last_candle_data s of
              None \<Rightarrow> True
            | Some prev \<Rightarrow> if close_price current_data < close_price prev then True else True))"

text \<open>\<^verbatim>\<open>_run_trade_setup_logic\<close>: the log lines written and the state afterwards.\<close>

definition run_trade_setup_logic :: "output_data \<Rightarrow> tracker \<Rightarrow> log list \<times> tracker" where
  "run_trade_setup_logic current_data s0 =
     (let s1 = (if alert_cooldown s0 > 0
                then s0\<lparr>alert_cooldown := alert_cooldown s0 - 1\<rparr> else s0);
          s2 = (if HA_color current_data = ''Green''
                then s1\<lparr>ha_green_streak := ha_green_streak s1 + 1\<rparr>
                else s1\<lparr>ha_green_streak := 0, consolidation_watch_countdown := 0\<rparr>)
      in if alert_cooldown s2 > 0 then ([], s2)
         else if ha_green_streak s2 = 4 then
           (if check_entry_conditions s2 current_data
            then ([Warn_strict_entry (utc current_data)],
                  s2\<lparr>alert_cooldown := ALERT_COOLDOWN_PERIOD,
                     consolidation_watch_countdown := 0\<rparr>)
            else ([Info_strict_failed],
                  s2\<lparr>consolidation_watch_countdown := CONSOLIDATION_WATCH_PERIOD\<rparr>))
         else if consolidation_watch_countdown s2 > 0 then
           (if check_entry_conditions s2 current_data
            then ([Warn_watch_entry (utc current_data)],
                  s2\<lparr>alert_cooldown := ALERT_COOLDOWN_PERIOD,
                     consolidation_watch_countdown := 0\<rparr>)
            else (let s3 = s2\<lparr>consolidation_watch_countdown :=
                                consolidation_watch_countdown s2 - 1\<rparr>
                  in (if consolidation_watch_countdown s3 = 0 then [Info_watch_ended] else [],
                      s3)))
         else ([], s2))"

text \<open>
  The detector alone, fed one record per candle as \<^verbatim>\<open>process_candle_data\<close> does
  (lines 173-176): the setup logic, then the record kept for the next candle. The
  result lists, candle by candle, whether an alert was written.
\<close>

definition setup_step :: "output_data \<Rightarrow> tracker \<Rightarrow> log list \<times> tracker" where
  "setup_step r s =
     (case run_trade_setup_logic r s of (logs, s') \<Rightarrow> (logs, s'\<lparr>last_candle_data := Some r\<rparr>))"

fun setup_run :: "tracker \<Rightarrow> output_data list \<Rightarrow> bool list \<times> tracker" where
  "setup_run s [] = ([], s)"
| "setup_run s (r # rs) =
     (case setup_step r s of (logs, s') \<Rightarrow>
        (case setup_run s' rs of (fired, s'') \<Rightarrow> (list_ex is_alert logs # fired, s'')))"

subsection \<open>Candle processing (OrderF\_HAFlags.py, lines 118-176)\<close>

text \<open>Lines 120-127: the six fields of the candle, read in the order of the source.\<close>

definition candle_fields ::
  "pylib \<Rightarrow> pydict \<Rightarrow> error + (int \<times> int \<times> real \<times> real \<times> real \<times> real)" where
  "candle_fields L candle =
     (case int_item L candle ''start'' of Inl e \<Rightarrow> Inl e | Inr candle_start_ms \<Rightarrow>
     (case int_item L candle ''end'' of Inl e \<Rightarrow> Inl e | Inr candle_end_ms \<Rightarrow>
     (case float_item L candle ''open'' of Inl e \<Rightarrow> Inl e | Inr open_price \<Rightarrow>
     (case float_item L candle ''high'' of Inl e \<Rightarrow> Inl e | Inr high_price \<Rightarrow>
     (case float_item L candle ''low'' of Inl e \<Rightarrow> Inl e | Inr low_price \<Rightarrow>
     (case float_item L candle ''close'' of Inl e \<Rightarrow> Inl e | Inr close_price' \<Rightarrow>
        Inr (candle_start_ms, candle_end_ms, open_price, high_price, low_price,
             close_price')))))))"

text \<open>
  Lines 129-136: the Heikin-Ashi open, close and colour from the stored pair and the
  raw prices. A stored open without a stored close would make line 134 add \<^verbatim>\<open>None\<close>.
\<close>

definition heikin_ashi ::
  "real option \<Rightarrow> real option \<Rightarrow> real \<Rightarrow> real \<Rightarrow> real \<Rightarrow> real \<Rightarrow> error + (real \<times> real \<times> string)" where
  "heikin_ashi prev_open prev_close open_price high_price low_price close_price' =
     (let ha_close = (open_price + high_price + low_price + close_price') / 4
      in case (case prev_open of
                 None \<Rightarrow> Inr ((open_price + close_price') / 2)
               | Some po \<Rightarrow> (case prev_close of
                              None \<Rightarrow> Inl TypeError
                            | Some pc \<Rightarrow> Inr ((po + pc) / 2)))
         of Inl e \<Rightarrow> Inl e
          | Inr ha_open \<Rightarrow>
              Inr (ha_open, ha_close, if ha_close > ha_open then ''Green'' else ''Red''))"

text \<open>A list comprehension \<^verbatim>\<open>[x for x in xs if c(x)]\<close> whose condition may raise.\<close>

fun filter_err :: "('a \<Rightarrow> error + bool) \<Rightarrow> 'a list \<Rightarrow> error + 'a list" where
  "filter_err c [] = Inr []"
| "filter_err c (x # xs) =
     (case c x of Inl e \<Rightarrow> Inl e
      | Inr b \<Rightarrow> (case filter_err c xs of Inl e \<Rightarrow> Inl e
                 | Inr ys \<Rightarrow> Inr (if b then x # ys else ys)))"

text \<open>The conditions of lines 147 and 148 on one buffered trade.\<close>

definition trade_in_window :: "pylib \<Rightarrow> int \<Rightarrow> int \<Rightarrow> pydict \<Rightarrow> error + bool" where
  "trade_in_window L candle_start_ms candle_end_ms t =
     (case int_item L t ''T'' of Inl e \<Rightarrow> Inl e
      | Inr T \<Rightarrow> Inr (candle_start_ms \<le> T \<and> T \<le> candle_end_ms))"

definition trade_after_window :: "pylib \<Rightarrow> int \<Rightarrow> pydict \<Rightarrow> error + bool" where
  "trade_after_window L candle_end_ms t =
     (case int_item L t ''T'' of Inl e \<Rightarrow> Inl e | Inr T \<Rightarrow> Inr (T > candle_end_ms))"

text \<open>
  Lines 146-148: the trades of the window and the buffer that is kept. The buffer is
  assigned only after both comprehensions have run.
\<close>

definition drain_trades ::
  "pylib \<Rightarrow> int \<Rightarrow> int \<Rightarrow> pydict list \<Rightarrow> error + (pydict list \<times> pydict list)" where
  "drain_trades L candle_start_ms candle_end_ms buf =
     (case filter_err (trade_in_window L candle_start_ms candle_end_ms) buf of
        Inl e \<Rightarrow> Inl e
      | Inr relevant_trades \<Rightarrow>
          (case filter_err (trade_after_window L candle_end_ms) buf of
             Inl e \<Rightarrow> Inl e
           | Inr kept \<Rightarrow> Inr (relevant_trades, kept)))"

text \<open>Lines 149-151: the same for the BBO buffer, whose entries hold numbers already.\<close>

definition drain_bbo :: "int \<Rightarrow> int \<Rightarrow> bbo list \<Rightarrow> bbo list \<times> bbo list" where
  "drain_bbo candle_start_ms candle_end_ms buf =
     (filter (\<lambda>b. candle_start_ms \<le> ts b \<and> ts b \<le> candle_end_ms) buf,
      filter (\<lambda>b. ts b > candle_end_ms) buf)"

text \<open>
  Lines 153-154: \<^verbatim>\<open>sum(float(t['v']) for t in relevant_trades if t['S'] == side)\<close>,
  summing from the left; the volume of a trade of another side is never read.
\<close>

fun side_volume :: "pylib \<Rightarrow> string \<Rightarrow> real \<Rightarrow> pydict list \<Rightarrow> error + real" where
  "side_volume L side acc [] = Inr acc"
| "side_volume L side acc (t # rest) =
     (case getitem t ''S'' of Inl e \<Rightarrow> Inl e
      | Inr sd \<Rightarrow>
          if py_eq sd (PyStr side)
          then (case float_item L t ''v'' of Inl e \<Rightarrow> Inl e
                | Inr v \<Rightarrow> side_volume L side (acc + v) rest)
          else side_volume L side acc rest)"

text \<open>Line 156.\<close>

definition aggression_ratio :: "real \<Rightarrow> real \<Rightarrow> real" where
  "aggression_ratio buy_volume sell_volume =
     (let total_volume = buy_volume + sell_volume
      in if total_volume > 0 then buy_volume / total_volume else 1 / 2)"

text \<open>\<^verbatim>\<open>statistics.mean\<close> of a list that is not empty.\<close>

definition mean :: "real list \<Rightarrow> real" where
  "mean xs = sum_list xs / of_nat (length xs)"

text \<open>Line 157.\<close>

definition bbo_imbalance_mean :: "bbo list \<Rightarrow> real" where
  "bbo_imbalance_mean relevant_bbo_updates =
     (if relevant_bbo_updates = [] then 1 / 2 else mean (map imbalance relevant_bbo_updates))"

text \<open>
  \<^verbatim>\<open>process_candle_data\<close>. The result is what was logged, or the exception that
  left the method, and the tracker as the method left it: the assignments made before
  an exception stay.
\<close>

definition process_candle_data ::
  "pylib \<Rightarrow> pydict \<Rightarrow> tracker \<Rightarrow> (error + log list) \<times> tracker" where
  "process_candle_data L candle s =
     (case candle_fields L candle of Inl e \<Rightarrow> (Inl e, s)
      | Inr (candle_start_ms, candle_end_ms, open_price, high_price, low_price, close_price') \<Rightarrow>
     (case heikin_ashi (last_ha_open s) (last_ha_close s)
             open_price high_price low_price close_price' of Inl e \<Rightarrow> (Inl e, s)
      | Inr (ha_open, ha_close, ha_color) \<Rightarrow>
     (let s1 = s\<lparr>last_ha_open := Some ha_open, last_ha_close := Some ha_close\<rparr>
      in
     (case utc_stamp L candle_start_ms of Inl e \<Rightarrow> (Inl e, s1)
      | Inr formatted_timestamp \<Rightarrow>
     (case drain_trades L candle_start_ms candle_end_ms (trade_buffer s1) of
        Inl e \<Rightarrow> (Inl e, s1)
      | Inr (relevant_trades, kept_trades) \<Rightarrow>
     (let s2 = s1\<lparr>trade_buffer := kept_trades\<rparr>;
          (relevant_bbo_updates, kept_bbo) =
             drain_bbo candle_start_ms candle_end_ms (bbo_buffer s2);
          s3 = s2\<lparr>bbo_buffer := kept_bbo\<rparr>
      in
     (case side_volume L ''Buy'' 0 relevant_trades of Inl e \<Rightarrow> (Inl e, s3)
      | Inr buy_volume \<Rightarrow>
     (case side_volume L ''Sell'' 0 relevant_trades of Inl e \<Rightarrow> (Inl e, s3)
      | Inr sell_volume \<Rightarrow>
     (let output_data =
            \<lparr>utc = formatted_timestamp,
             close_price = close_price',
             HA_open = py_round ha_open 5,
             HA_close = py_round ha_close 5,
             HA_color = ha_color,
             agg_ratio = py_round (aggression_ratio buy_volume sell_volume) 4,
             avg_bbo_imba = py_round (bbo_imbalance_mean relevant_bbo_updates) 4\<rparr>
      in case setup_step output_data s3 of
           (logs, s4) \<Rightarrow> (Inr (Info_candle output_data # logs), s4))))))))))"

subsection \<open>Message handlers (OrderF\_HAFlags.py, lines 212-248)\<close>

text \<open>
  A kline or trade message is modelled by its \<^verbatim>\<open>"data"\<close> entry, a list of
  dictionaries, \<open>None\<close> when the key is absent.
\<close>

type_synonym message = "pydict list option"

definition message_data :: "message \<Rightarrow> pydict list" where
  "message_data m = (case m of None \<Rightarrow> [] | Some d \<Rightarrow> d)"

definition handle_trade_message :: "message \<Rightarrow> tracker \<Rightarrow> tracker" where
  "handle_trade_message m s = s\<lparr>trade_buffer := trade_buffer s @ message_data m\<rparr>"

text \<open>
  \<^verbatim>\<open>handle_kline_message\<close>: \<^verbatim>\<open>[0]\<close> on an empty list raises, \<^verbatim>\<open>and\<close> reads
  \<^verbatim>\<open>candle['start']\<close> only when \<^verbatim>\<open>confirm\<close> is true.
\<close>

definition handle_kline_message ::
  "pylib \<Rightarrow> message \<Rightarrow> tracker \<Rightarrow> (error + log list) \<times> tracker" where
  "handle_kline_message L m s =
     (case message_data m of
        [] \<Rightarrow> (Inl IndexError, s)
      | candle # rest \<Rightarrow>
          if py_truthy (candle ''confirm'')
          then (case getitem candle ''start'' of
                  Inl e \<Rightarrow> (Inl e, s)
                | Inr start \<Rightarrow>
                    if \<not> py_eq (last_kline_start_time s) start
                    then process_candle_data L candle (s\<lparr>last_kline_start_time := start\<rparr>)
                    else (Inr [], s))
          else (Inr [], s))"

text \<open>
  The top-of-book message: the \<^verbatim>\<open>"b"\<close> and \<^verbatim>\<open>"a"\<close> lists of its data (empty
  when absent) and its \<^verbatim>\<open>"ts"\<close> entry.
\<close>

record bbo_message =
  msg_b :: "pyval list list"
  msg_a :: "pyval list list"
  msg_ts :: "pyval option"

definition list_item :: "'a list \<Rightarrow> nat \<Rightarrow> error + 'a" where
  "list_item xs i = (if i < length xs then Inr (xs ! i) else Inl IndexError)"

definition level_size :: "pylib \<Rightarrow> pyval list list \<Rightarrow> error + real" where
  "level_size L levels =
     (case list_item levels 0 of Inl e \<Rightarrow> Inl e
      | Inr level \<Rightarrow> (case list_item level 1 of Inl e \<Rightarrow> Inl e | Inr v \<Rightarrow> py_float L v))"

text \<open>Lines 221-224, inside the \<^verbatim>\<open>try\<close>.\<close>

definition bbo_entry :: "pylib \<Rightarrow> bbo_message \<Rightarrow> error + bbo" where
  "bbo_entry L m =
     (case level_size L (msg_b m) of Inl e \<Rightarrow> Inl e | Inr bid_size \<Rightarrow>
     (case level_size L (msg_a m) of Inl e \<Rightarrow> Inl e | Inr ask_size \<Rightarrow>
     (let total_size = bid_size + ask_size;
          imbalance' = (if total_size > 0 then bid_size / total_size else 1 / 2)
      in case py_int L (case msg_ts m of None \<Rightarrow> PyNone | Some v \<Rightarrow> v) of
           Inl e \<Rightarrow> Inl e
         | Inr t \<Rightarrow> Inr \<lparr>ts = t, imbalance = imbalance'\<rparr>)))"

text \<open>\<^verbatim>\<open>handle_bbo_message\<close>: every exception is caught and logged.\<close>

definition handle_bbo_message :: "pylib \<Rightarrow> bbo_message \<Rightarrow> tracker \<Rightarrow> log list \<times> tracker" where
  "handle_bbo_message L m s =
     (if msg_b m = [] \<or> msg_a m = [] then ([], s)
      else case bbo_entry L m of
             Inl e \<Rightarrow> ([Error_bbo], s)
           | Inr entry \<Rightarrow> ([], s\<lparr>bbo_buffer := bbo_buffer s @ [entry]\<rparr>))"

text \<open>
  The callbacks as the socket library calls them, one message at a time. An exception
  that leaves \<^verbatim>\<open>handle_kline_message\<close> goes to the caller; the tracker stays as the
  exception left it and nothing was logged.
\<close>

datatype event = Trade_message message | Bbo_message bbo_message | Kline_message message

fun deliver :: "pylib \<Rightarrow> event \<Rightarrow> tracker \<Rightarrow> log list \<times> tracker" where
  "deliver L (Trade_message m) s = ([], handle_trade_message m s)"
| "deliver L (Bbo_message m) s = handle_bbo_message L m s"
| "deliver L (Kline_message m) s =
     (case handle_kline_message L m s of
        (Inl e, s') \<Rightarrow> ([], s')
      | (Inr logs, s') \<Rightarrow> (logs, s'))"

fun run :: "pylib \<Rightarrow> tracker \<Rightarrow> event list \<Rightarrow> log list list \<times> tracker" where
  "run L s [] = ([], s)"
| "run L s (ev # evs) =
     (case deliver L ev s of (logs, s') \<Rightarrow>
        (case run L s' evs of (logss, s'') \<Rightarrow> (logs # logss, s'')))"

section \<open>Cumulative volume delta (trade\_exhaust2.py)\<close>

subsection \<open>State (lines 11-23)\<close>

text \<open>
  The dictionary \<^verbatim>\<open>output\<close> of lines 110-120; the field \<open>out_k\<close> is its key
  \<^verbatim>\<open>k\<close>, and \<open>out_cvd\<close> its key \<^verbatim>\<open>cumulative_volume_delta\<close>.
\<close>

record cvd_output =
  out_timestamp_utc :: string
  out_close_price :: real
  out_buy_volume :: real
  out_sell_volume :: real
  out_total_volume :: real
  out_delta :: real
  out_agg_ratio :: real
  out_cvd :: real
  out_cvd_zscore_ratio :: real

record cvd_tracker =
  trade_buffer_cvd :: "pydict list"
  cumulative_volume_delta :: real
  cvd_history :: "real list"
  cvd_zscore_period :: nat
  last_kline_start_time_cvd :: pyval

definition init_tracker_cvd :: "nat \<Rightarrow> cvd_tracker" where
  "init_tracker_cvd period =
     \<lparr>trade_buffer_cvd = [], cumulative_volume_delta = 0, cvd_history = [],
      cvd_zscore_period = period, last_kline_start_time_cvd = PyNone\<rparr>"

text \<open>\<^verbatim>\<open>append\<close> on a \<^verbatim>\<open>deque\<close> with \<^verbatim>\<open>maxlen\<close>: the oldest entries fall out.\<close>

definition deque_append :: "nat \<Rightarrow> 'a list \<Rightarrow> 'a \<Rightarrow> 'a list" where
  "deque_append maxlen xs x = (let ys = xs @ [x] in drop (length ys - maxlen) ys)"

text \<open>\<^verbatim>\<open>statistics.stdev\<close> of at least two values.\<close>

definition stdev :: "real list \<Rightarrow> real" where
  "stdev xs = sqrt (sum_list (map (\<lambda>x. (x - mean xs)\<^sup>2) xs) / of_nat (length xs - 1))"

subsection \<open>Candle processing (lines 58-127)\<close>

text \<open>Lines 77-82: the loop over the trades of the window.\<close>

fun volumes_cvd :: "pylib \<Rightarrow> real \<times> real \<Rightarrow> pydict list \<Rightarrow> error + (real \<times> real)" where
  "volumes_cvd L (buy_volume, sell_volume) [] = Inr (buy_volume, sell_volume)"
| "volumes_cvd L (buy_volume, sell_volume) (trade # rest) =
     (case float_item L trade ''v'' of Inl e \<Rightarrow> Inl e
      | Inr volume \<Rightarrow>
          (case getitem trade ''S'' of Inl e \<Rightarrow> Inl e
           | Inr sd \<Rightarrow>
               if py_eq sd (PyStr ''Buy'')
               then volumes_cvd L (buy_volume + volume, sell_volume) rest
               else if py_eq sd (PyStr ''Sell'')
               then volumes_cvd L (buy_volume, sell_volume + volume) rest
               else volumes_cvd L (buy_volume, sell_volume) rest))"

text \<open>
  Lines 60-82: everything read from the candle and the buffer before the tracker is
  changed: the end of the window, the close price, the timestamp, and the buy and sell
  volumes of the window.
\<close>

definition candle_volumes_cvd ::
  "pylib \<Rightarrow> pydict \<Rightarrow> pydict list \<Rightarrow> error + (int \<times> real \<times> string \<times> real \<times> real)" where
  "candle_volumes_cvd L candle buf =
     (case int_item L candle ''start'' of Inl e \<Rightarrow> Inl e | Inr candle_start_ms \<Rightarrow>
     (case int_item L candle ''end'' of Inl e \<Rightarrow> Inl e | Inr candle_end_ms \<Rightarrow>
     (case float_item L candle ''close'' of Inl e \<Rightarrow> Inl e | Inr candle_close_price \<Rightarrow>
     (case utc_stamp L candle_start_ms of Inl e \<Rightarrow> Inl e | Inr formatted_timestamp \<Rightarrow>
     (case filter_err (trade_in_window L candle_start_ms candle_end_ms) buf of
        Inl e \<Rightarrow> Inl e
      | Inr relevant_trades \<Rightarrow>
     (case volumes_cvd L (0, 0) relevant_trades of Inl e \<Rightarrow> Inl e
      | Inr (buy_volume, sell_volume) \<Rightarrow>
          Inr (candle_end_ms, candle_close_price, formatted_timestamp,
               buy_volume, sell_volume)))))))"

text \<open>Lines 98-106. The guard on the length keeps \<^verbatim>\<open>StatisticsError\<close> away.\<close>

definition cvd_zscore :: "real \<Rightarrow> real list \<Rightarrow> real" where
  "cvd_zscore cvd history =
     (if length history > 1
      then (let mean_cvd = mean history; stdev_cvd = stdev history
            in if stdev_cvd > 0 then (cvd - mean_cvd) / stdev_cvd else 0)
      else 0)"

text \<open>
  \<^verbatim>\<open>process_candle_data\<close> of trade\_exhaust2.py: the logged dictionary or the
  exception, and the tracker afterwards.
\<close>

definition process_candle_data_cvd ::
  "pylib \<Rightarrow> pydict \<Rightarrow> cvd_tracker \<Rightarrow> (error + cvd_output) \<times> cvd_tracker" where
  "process_candle_data_cvd L candle s =
     (case candle_volumes_cvd L candle (trade_buffer_cvd s) of Inl e \<Rightarrow> (Inl e, s)
      | Inr (candle_end_ms, candle_close_price, formatted_timestamp,
             buy_volume, sell_volume) \<Rightarrow>
     (let volume_delta = buy_volume - sell_volume;
          total_volume = buy_volume + sell_volume;
          agg_ratio' = aggression_ratio buy_volume sell_volume;
          s1 = s\<lparr>cumulative_volume_delta := cumulative_volume_delta s + volume_delta\<rparr>;
          s2 = s1\<lparr>cvd_history :=
                   deque_append (cvd_zscore_period s1) (cvd_history s1)
                     (cumulative_volume_delta s1)\<rparr>;
          cvd_zscore_ratio = cvd_zscore (cumulative_volume_delta s2) (cvd_history s2);
          output =
            \<lparr>out_timestamp_utc = formatted_timestamp,
             out_close_price = candle_close_price,
             out_buy_volume = py_round buy_volume 4,
             out_sell_volume = py_round sell_volume 4,
             out_total_volume = py_round total_volume 4,
             out_delta = py_round volume_delta 4,
             out_agg_ratio = py_round agg_ratio' 4,
             out_cvd = py_round (cumulative_volume_delta s2) 4,
             out_cvd_zscore_ratio = py_round cvd_zscore_ratio 4\<rparr>
      in case filter_err (trade_after_window L candle_end_ms) (trade_buffer_cvd s2) of
           Inl e \<Rightarrow> (Inl e, s2)
         | Inr kept \<Rightarrow> (Inr output, s2\<lparr>trade_buffer_cvd := kept\<rparr>)))"

subsection \<open>Message handlers (lines 40-56)\<close>

definition handle_trade_message_cvd :: "message \<Rightarrow> cvd_tracker \<Rightarrow> cvd_tracker" where
  "handle_trade_message_cvd m s = s\<lparr>trade_buffer_cvd := trade_buffer_cvd s @ message_data m\<rparr>"

text \<open>
  \<^verbatim>\<open>handle_kline_message\<close> of trade\_exhaust2.py: an empty list returns, and
  \<^verbatim>\<open>confirm\<close> must be the value \<^verbatim>\<open>True\<close> itself. \<open>Inr None\<close>: nothing was processed.
\<close>

definition handle_kline_message_cvd ::
  "pylib \<Rightarrow> message \<Rightarrow> cvd_tracker \<Rightarrow> (error + cvd_output option) \<times> cvd_tracker" where
  "handle_kline_message_cvd L m s =
     (case message_data m of
        [] \<Rightarrow> (Inr None, s)
      | candle # rest \<Rightarrow>
          if candle ''confirm'' = Some (PyBool True)
          then (case getitem candle ''start'' of
                  Inl e \<Rightarrow> (Inl e, s)
                | Inr start \<Rightarrow>
                    if \<not> py_eq (last_kline_start_time_cvd s) start
                    then (case process_candle_data_cvd L candle
                                 (s\<lparr>last_kline_start_time_cvd := start\<rparr>) of
                            (Inl e, s') \<Rightarrow> (Inl e, s')
                          | (Inr output, s') \<Rightarrow> (Inr (Some output), s'))
                    else (Inr None, s))
          else (Inr None, s))"

text \<open>
  The two callbacks, one message at a time, and what a run of them shows of the
  cumulative delta: for every candle that was processed, the \<^verbatim>\<open>volume_delta\<close> of
  line 85 and the tracker's \<^verbatim>\<open>cumulative_volume_delta\<close> right afterwards.
\<close>

datatype event_cvd = Trade_message_cvd message | Kline_message_cvd message

fun deliver_cvd :: "pylib \<Rightarrow> event_cvd \<Rightarrow> cvd_tracker \<Rightarrow> cvd_tracker" where
  "deliver_cvd L (Trade_message_cvd m) s = handle_trade_message_cvd m s"
| "deliver_cvd L (Kline_message_cvd m) s = snd (handle_kline_message_cvd L m s)"

definition volume_delta_cvd :: "pylib \<Rightarrow> pydict \<Rightarrow> pydict list \<Rightarrow> real" where
  "volume_delta_cvd L candle buf =
     (case candle_volumes_cvd L candle buf of
        Inl e \<Rightarrow> 0
      | Inr (candle_end_ms, candle_close_price, formatted_timestamp,
             buy_volume, sell_volume) \<Rightarrow> buy_volume - sell_volume)"

fun processed_cvd :: "pylib \<Rightarrow> event_cvd \<Rightarrow> cvd_tracker \<Rightarrow> (real \<times> real) list" where
  "processed_cvd L (Trade_message_cvd m) s = []"
| "processed_cvd L (Kline_message_cvd m) s =
     (case handle_kline_message_cvd L m s of
        (Inr (Some output), s') \<Rightarrow>
          [(volume_delta_cvd L (hd (message_data m)) (trade_buffer_cvd s),
            cumulative_volume_delta s')]
      | (r, s') \<Rightarrow> [])"

fun trace_cvd :: "pylib \<Rightarrow> cvd_tracker \<Rightarrow> event_cvd list \<Rightarrow> (real \<times> real) list" where
  "trace_cvd L s [] = []"
| "trace_cvd L s (ev # evs) = processed_cvd L ev s @ trace_cvd L (deliver_cvd L ev s) evs"

fun run_cvd :: "pylib \<Rightarrow> cvd_tracker \<Rightarrow> event_cvd list \<Rightarrow> cvd_tracker" where
  "run_cvd L s [] = s"
| "run_cvd L s (ev # evs) = run_cvd L (deliver_cvd L ev s) evs"

section \<open>A library instance\<close>

text \<open>
  To run the model on concrete messages: plain decimal literals (an optional minus
  sign, digits, for \<^verbatim>\<open>float\<close> an optional fraction), and the timestamp of a
  millisecond count from 1970 to the end of the year 9999.
\<close>

fun digits_value :: "nat \<Rightarrow> string \<Rightarrow> nat option" where
  "digits_value acc [] = Some acc"
| "digits_value acc (c # cs) =
     (if c \<in> set ''0123456789''
      then digits_value (10 * acc + (of_char c - 48)) cs else None)"

definition unsigned_int :: "string \<Rightarrow> nat option" where
  "unsigned_int s = (if s = [] then None else digits_value 0 s)"

definition unsigned_float :: "string \<Rightarrow> real option" where
  "unsigned_float s =
     (let whole = takeWhile (\<lambda>c. c \<noteq> CHR ''.'') s;
          frac = drop (Suc (length whole)) s
      in if length whole < length s \<and> frac = [] then None
         else (case (unsigned_int whole, digits_value 0 frac) of
                 (Some w, Some f) \<Rightarrow> Some (of_nat w + of_nat f / 10 ^ length frac)
               | _ \<Rightarrow> None))"

definition str_int0 :: "string \<Rightarrow> int option" where
  "str_int0 s =
     (case s of
        [] \<Rightarrow> None
      | c # cs \<Rightarrow> if c = CHR ''-'' then map_option (\<lambda>n. - int n) (unsigned_int cs)
                  else map_option int (unsigned_int s))"

definition str_float0 :: "string \<Rightarrow> real option" where
  "str_float0 s =
     (case s of
        [] \<Rightarrow> None
      | c # cs \<Rightarrow> if c = CHR ''-'' then map_option uminus (unsigned_float cs)
                  else unsigned_float s)"

fun zero_pad :: "nat \<Rightarrow> nat \<Rightarrow> string" where
  "zero_pad 0 n = []"
| "zero_pad (Suc w) n = zero_pad w (n div 10) @ [''0123456789'' ! (n mod 10)]"

text \<open>Year, month and day of a count of days since 1970-01-01.\<close>

definition civil_from_days :: "int \<Rightarrow> int \<times> int \<times> int" where
  "civil_from_days days =
     (let z = days + 719468;
          era = z div 146097;
          doe = z - era * 146097;
          yoe = (doe - doe div 1460 + doe div 36524 - doe div 146096) div 365;
          doy = doe - (365 * yoe + yoe div 4 - yoe div 100);
          mp = (5 * doy + 2) div 153;
          d = doy - (153 * mp + 2) div 5 + 1;
          m = (if mp < 10 then mp + 3 else mp - 9);
          y = yoe + era * 400 + (if m \<le> 2 then 1 else 0)
      in (y, m, d))"

definition utc_stamp0 :: "int \<Rightarrow> error + string" where
  "utc_stamp0 ms =
     (if ms < 0 \<or> 253402300800000 \<le> ms then Inl ValueError
      else (let secs = ms div 1000;
                (y, m, d) = civil_from_days (secs div 86400);
                sod = secs mod 86400
            in Inr (zero_pad 4 (nat y) @ ''-'' @ zero_pad 2 (nat m) @ ''-'' @ zero_pad 2 (nat d)
                    @ '' '' @ zero_pad 2 (nat (sod div 3600)) @ '':''
                    @ zero_pad 2 (nat (sod mod 3600 div 60)) @ '':''
                    @ zero_pad 2 (nat (sod mod 60)) @ '',''
                    @ zero_pad 3 (nat (ms mod 1000)))))"

definition lib0 :: pylib where
  "lib0 = \<lparr>str_int = str_int0, str_float = str_float0, utc_stamp = utc_stamp0\<rparr>"

section \<open>Notions used in the properties\<close>

text \<open>The three counters of the setup detector and their bounds.\<close>

definition setup_counters :: "tracker \<Rightarrow> int \<times> int \<times> int" where
  "setup_counters s = (ha_green_streak s, consolidation_watch_countdown s, alert_cooldown s)"

definition setup_inv :: "tracker \<Rightarrow> bool" where
  "setup_inv s \<longleftrightarrow>
     0 \<le> alert_cooldown s \<and> alert_cooldown s \<le> ALERT_COOLDOWN_PERIOD
     \<and> 0 \<le> consolidation_watch_countdown s
     \<and> consolidation_watch_countdown s \<le> CONSOLIDATION_WATCH_PERIOD
     \<and> 0 \<le> ha_green_streak s"

text \<open>Sample records: a green and a red candle with the two order-flow metrics given.\<close>

definition green_record :: "real \<Rightarrow> real \<Rightarrow> output_data" where
  "green_record a b =
     \<lparr>utc = ''1970-01-01 00:01:00,000'', close_price = 1, HA_open = 1, HA_close = 2,
      HA_color = ''Green'', agg_ratio = a, avg_bbo_imba = b\<rparr>"

definition red_record :: "real \<Rightarrow> real \<Rightarrow> output_data" where
  "red_record a b =
     \<lparr>utc = ''1970-01-01 00:01:00,000'', close_price = 1, HA_open = 2, HA_close = 1,
      HA_color = ''Red'', agg_ratio = a, avg_bbo_imba = b\<rparr>"

text \<open>Sample messages: a confirmed one-minute candle and a trade.\<close>

definition sample_candle :: "int \<Rightarrow> real \<Rightarrow> real \<Rightarrow> real \<Rightarrow> real \<Rightarrow> pydict" where
  "sample_candle k op hi lo cl =
     [''start'' \<mapsto> PyInt (60000 * k), ''end'' \<mapsto> PyInt (60000 * k + 59999),
      ''open'' \<mapsto> PyFloat op, ''high'' \<mapsto> PyFloat hi, ''low'' \<mapsto> PyFloat lo,
      ''close'' \<mapsto> PyFloat cl, ''confirm'' \<mapsto> PyBool True]"

definition sample_trade :: "int \<Rightarrow> string \<Rightarrow> pyval \<Rightarrow> pydict" where
  "sample_trade t side vol = [''T'' \<mapsto> PyInt t, ''S'' \<mapsto> PyStr side, ''v'' \<mapsto> vol]"

text \<open>The timestamp of a buffered trade, where \<^verbatim>\<open>int(t['T'])\<close> returns.\<close>

definition trade_time :: "pylib \<Rightarrow> pydict \<Rightarrow> int" where
  "trade_time L t = (case int_item L t ''T'' of Inl e \<Rightarrow> 0 | Inr T \<Rightarrow> T)"

definition readable_time :: "pylib \<Rightarrow> pydict \<Rightarrow> bool" where
  "readable_time L t = (case int_item L t ''T'' of Inl e \<Rightarrow> False | Inr T \<Rightarrow> True)"

text \<open>The stored Heikin-Ashi pair is complete, and the open computed from it (lines 131-134).\<close>

definition ha_paired :: "tracker \<Rightarrow> bool" where
  "ha_paired s \<longleftrightarrow> (last_ha_open s = None \<longleftrightarrow> last_ha_close s = None)"

definition ha_open_of :: "tracker \<Rightarrow> real \<Rightarrow> real \<Rightarrow> real" where
  "ha_open_of s open_price close_price' =
     (case (last_ha_open s, last_ha_close s) of
        (Some po, Some pc) \<Rightarrow> (po + pc) / 2
      | _ \<Rightarrow> (open_price + close_price') / 2)"

text \<open>Two CVD trackers that differ at most in the history and its length.\<close>

definition same_but_history :: "cvd_tracker \<Rightarrow> cvd_tracker \<Rightarrow> bool" where
  "same_but_history s t \<longleftrightarrow>
     trade_buffer_cvd s = trade_buffer_cvd t
     \<and> cumulative_volume_delta s = cumulative_volume_delta t
     \<and> last_kline_start_time_cvd s = last_kline_start_time_cvd t"

text \<open>Sample events for the CVD tracker: two trades, then the candle they fall into.\<close>

definition sample_events_cvd :: "event_cvd list" where
  "sample_events_cvd =
     [Trade_message_cvd (Some [sample_trade 60001 ''Buy'' (PyStr ''3''),
                               sample_trade 60002 ''Sell'' (PyStr ''1'')]),
      Kline_message_cvd (Some [sample_candle 1 100 110 100 104])]"

text \<open>
  A kline message, and two trackers to receive it. The first holds one buffered trade
  whose volume does not parse. The second has seen three green candles and holds a buy
  of 54996 and a sell of 45004, an aggression ratio of 0.54996; the record is the one
  built for the candle there.
\<close>

definition sample_message :: message where
  "sample_message = Some [sample_candle 1 100 110 100 104]"

definition tracker_bad_volume :: tracker where
  "tracker_bad_volume =
     init_tracker\<lparr>trade_buffer := [sample_trade 60001 ''Buy'' (PyStr ''abc'')]\<rparr>"

definition tracker_near_threshold :: tracker where
  "tracker_near_threshold =
     init_tracker
       \<lparr>trade_buffer := [sample_trade 60001 ''Buy'' (PyStr ''54996''),
                         sample_trade 60002 ''Sell'' (PyStr ''45004'')],
        last_kline_start_time := PyInt 0,
        last_ha_open := Some 100, last_ha_close := Some 101,
        ha_green_streak := 3,
        last_candle_data := Some (green_record (1 / 2) (1 / 2))\<rparr>"

definition sample_record :: output_data where
  "sample_record =
     \<lparr>utc = ''1970-01-01 00:01:00,000'', close_price = 104, HA_open = 201 / 2,
      HA_close = 207 / 2, HA_color = ''Green'', agg_ratio = 55 / 100, avg_bbo_imba = 1 / 2\<rparr>"

text \<open>A confirmed candle that has only its start, and a top-of-book message whose bid level
  has no size.\<close>

definition sample_message_short :: message where
  "sample_message_short = Some [[''start'' \<mapsto> PyInt 60000, ''confirm'' \<mapsto> PyBool True]]"

definition sample_bbo_short :: bbo_message where
  "sample_bbo_short =
     \<lparr>msg_b = [[PyStr ''100'']], msg_a = [[PyStr ''101'', PyStr ''5'']],
      msg_ts = Some (PyInt 60001)\<rparr>"

section \<open>Setup detector\<close>

subsection \<open>Entry conditions\<close>

lemma check_entry_conditions_iff:
  "check_entry_conditions s r \<longleftrightarrow>
     HA_color r = ''Green'' \<and> 35 / 100 \<le> agg_ratio r \<and> 35 / 100 \<le> avg_bbo_imba r
     \<and> (55 / 100 \<le> agg_ratio r \<or> 55 / 100 \<le> avg_bbo_imba r)"
  by (auto simp: check_entry_conditions_def RED_ZONE_THRESHOLD_def GREEN_ZONE_THRESHOLD_def
      split: option.splits)

text \<open>
  C4. The entry check holds exactly when the colour is Green, both metrics are at least
  0.35 and one of them is at least 0.55. The record of the previous candle, whose close
  price the fourth test reads, has no influence: replacing it by any other, or by none,
  leaves the result as it is.
\<close>

theorem entry_check:
  "(check_entry_conditions s r \<longleftrightarrow>
      HA_color r = ''Green'' \<and> 35 / 100 \<le> agg_ratio r \<and> 35 / 100 \<le> avg_bbo_imba r
      \<and> (55 / 100 \<le> agg_ratio r \<or> 55 / 100 \<le> avg_bbo_imba r))
   \<and> check_entry_conditions (s\<lparr>last_candle_data := prev\<rparr>) r = check_entry_conditions s r"
  by (simp only: check_entry_conditions_iff)

theorem entry_check_witness:
  "check_entry_conditions
     (init_tracker\<lparr>last_candle_data := Some (green_record 1 1\<lparr>close_price := 9\<rparr>)\<rparr>)
     (green_record (4 / 10) (6 / 10))
   \<and> \<not> check_entry_conditions init_tracker (green_record (3 / 10) (6 / 10))"
  using entry_check [of "init_tracker\<lparr>last_candle_data :=
                           Some (green_record 1 1\<lparr>close_price := 9\<rparr>)\<rparr>"
      "green_record (4 / 10) (6 / 10)" None]
    entry_check [of init_tracker "green_record (3 / 10) (6 / 10)" None]
  by (simp add: green_record_def)

subsection \<open>Streaks beyond four\<close>

text \<open>
  C6. When a candle arrives with a green streak of four or more and no consolidation
  watch running, no alert is written for it, whatever its colour and metrics. A green
  candle lengthens the streak and leaves the watch off, so the next candle is in the
  same position; any other colour sets the streak back to zero.
\<close>

theorem streak_beyond_four_silent:
  assumes "4 \<le> ha_green_streak s" and "consolidation_watch_countdown s = 0"
  shows "\<not> list_ex is_alert (fst (run_trade_setup_logic r s))
    \<and> (HA_color r = ''Green'' \<longrightarrow>
           ha_green_streak (snd (run_trade_setup_logic r s)) = ha_green_streak s + 1
           \<and> consolidation_watch_countdown (snd (run_trade_setup_logic r s)) = 0)
    \<and> (HA_color r \<noteq> ''Green'' \<longrightarrow> ha_green_streak (snd (run_trade_setup_logic r s)) = 0)"
  using assms by (auto simp: run_trade_setup_logic_def Let_def)

text \<open>
  Seven green candles whose metrics never pass the entry check: the strict entry fails on
  the fourth, the watch runs out on the seventh. The eighth is green with both metrics
  at 1, and nothing is written.
\<close>

lemma seven_weak_greens:
  "ha_green_streak (snd (setup_run init_tracker (replicate 7 (green_record (1 / 2) (1 / 2))))) = 7
   \<and> consolidation_watch_countdown
         (snd (setup_run init_tracker (replicate 7 (green_record (1 / 2) (1 / 2))))) = 0
   \<and> alert_cooldown
         (snd (setup_run init_tracker (replicate 7 (green_record (1 / 2) (1 / 2))))) = 0"
  by code_simp

theorem streak_beyond_four_silent_witness:
  "\<not> list_ex is_alert
       (fst (run_trade_setup_logic (green_record 1 1)
          (snd (setup_run init_tracker (replicate 7 (green_record (1 / 2) (1 / 2)))))))
   \<and> ha_green_streak
       (snd (run_trade_setup_logic (green_record 1 1)
          (snd (setup_run init_tracker (replicate 7 (green_record (1 / 2) (1 / 2))))))) = 8"
  using streak_beyond_four_silent
    [of "snd (setup_run init_tracker (replicate 7 (green_record (1 / 2) (1 / 2))))"
      "green_record 1 1"]
    seven_weak_greens
  by (simp add: green_record_def)

subsection \<open>Bounds of the counters\<close>

lemma run_trade_setup_logic_inv:
  "setup_inv s \<Longrightarrow> setup_inv (snd (run_trade_setup_logic r s))"
  by (auto simp: setup_inv_def run_trade_setup_logic_def Let_def
      ALERT_COOLDOWN_PERIOD_def CONSOLIDATION_WATCH_PERIOD_def)

lemma setup_inv_cong:
  "setup_counters s' = setup_counters s \<Longrightarrow> setup_inv s' = setup_inv s"
  by (simp add: setup_inv_def setup_counters_def)

lemma setup_step_inv: "setup_inv s \<Longrightarrow> setup_inv (snd (setup_step r s))"
proof -
  assume "setup_inv s"
  then have "setup_inv (snd (run_trade_setup_logic r s))"
    by (rule run_trade_setup_logic_inv)
  then show ?thesis
    by (simp add: setup_step_def setup_inv_def split_beta)
qed

lemma setup_inv_init: "setup_inv init_tracker"
  by (simp add: setup_inv_def init_tracker_def ALERT_COOLDOWN_PERIOD_def
      CONSOLIDATION_WATCH_PERIOD_def)

lemma setup_run_inv: "setup_inv s \<Longrightarrow> setup_inv (snd (setup_run s rs))"
proof (induction rs arbitrary: s)
  case Nil
  then show ?case by simp
next
  case (Cons r rs)
  from Cons.prems have "setup_inv (snd (setup_step r s))" by (rule setup_step_inv)
  then have "setup_inv (snd (setup_run (snd (setup_step r s)) rs))" by (rule Cons.IH)
  then show ?case by (simp add: split_beta)
qed

text \<open>
  How \<^verbatim>\<open>process_candle_data\<close> ends. An exception leaves the counters, the stored
  record and the deduplication key as they were; a normal return has gone through every
  stage, the last one being the setup logic on the record that was logged.
\<close>

lemma process_candle_data_Inl:
  assumes "process_candle_data L candle s = (Inl e, s')"
  shows "setup_counters s' = setup_counters s \<and> last_candle_data s' = last_candle_data s
         \<and> last_kline_start_time s' = last_kline_start_time s"
  using assms unfolding process_candle_data_def Let_def
  by (auto simp: setup_counters_def split_beta split: sum.splits)

lemma process_candle_data_Inr:
  assumes "process_candle_data L candle s = (Inr logs, s')"
  obtains candle_start_ms candle_end_ms open_price high_price low_price close_price'
    ha_open ha_close ha_color formatted_timestamp relevant_trades kept_trades
    buy_volume sell_volume r s3 setup_logs
  where "candle_fields L candle =
           Inr (candle_start_ms, candle_end_ms, open_price, high_price, low_price, close_price')"
    and "heikin_ashi (last_ha_open s) (last_ha_close s)
           open_price high_price low_price close_price' = Inr (ha_open, ha_close, ha_color)"
    and "utc_stamp L candle_start_ms = Inr formatted_timestamp"
    and "drain_trades L candle_start_ms candle_end_ms (trade_buffer s) =
           Inr (relevant_trades, kept_trades)"
    and "side_volume L ''Buy'' 0 relevant_trades = Inr buy_volume"
    and "side_volume L ''Sell'' 0 relevant_trades = Inr sell_volume"
    and "r = \<lparr>utc = formatted_timestamp,
             close_price = close_price',
             HA_open = py_round ha_open 5,
             HA_close = py_round ha_close 5,
             HA_color = ha_color,
             agg_ratio = py_round (aggression_ratio buy_volume sell_volume) 4,
             avg_bbo_imba = py_round (bbo_imbalance_mean
                (fst (drain_bbo candle_start_ms candle_end_ms (bbo_buffer s)))) 4\<rparr>"
    and "s3 = s\<lparr>last_ha_open := Some ha_open, last_ha_close := Some ha_close,
               trade_buffer := kept_trades,
               bbo_buffer := snd (drain_bbo candle_start_ms candle_end_ms (bbo_buffer s))\<rparr>"
    and "setup_step r s3 = (setup_logs, s')"
    and "logs = Info_candle r # setup_logs"
proof -
  from assms obtain f where f: "candle_fields L candle = Inr f"
    unfolding process_candle_data_def by (auto split: sum.splits)
  obtain a b p1 p2 p3 p4 where f': "f = (a, b, p1, p2, p3, p4)"
    by (cases f)
  from assms f f' obtain h
    where h: "heikin_ashi (last_ha_open s) (last_ha_close s) p1 p2 p3 p4 = Inr h"
    unfolding process_candle_data_def by (auto split: sum.splits)
  obtain ho hc col where h': "h = (ho, hc, col)"
    by (cases h)
  from assms f f' h h' obtain stamp where st: "utc_stamp L a = Inr stamp"
    unfolding process_candle_data_def by (auto simp: Let_def split: sum.splits)
  from assms f f' h h' st obtain d where d: "drain_trades L a b (trade_buffer s) = Inr d"
    unfolding process_candle_data_def by (auto simp: Let_def split: sum.splits)
  obtain rel kept where d': "d = (rel, kept)"
    by (cases d)
  from assms f f' h h' st d d' obtain buy where buy: "side_volume L ''Buy'' 0 rel = Inr buy"
    unfolding process_candle_data_def by (auto simp: Let_def split_beta split: sum.splits)
  from assms f f' h h' st d d' buy obtain sell
    where sell: "side_volume L ''Sell'' 0 rel = Inr sell"
    unfolding process_candle_data_def by (auto simp: Let_def split_beta split: sum.splits)
  from assms f f' h h' st d d' buy sell show thesis
    unfolding process_candle_data_def
    by (intro that [of a b p1 p2 p3 p4 ho hc col stamp rel kept buy sell _ _
          "fst (setup_step _ _)"])
       (auto simp: Let_def split_beta)
qed

lemma process_candle_data_Inr_setup:
  assumes "process_candle_data L candle s = (Inr logs, s')"
  shows "\<exists>r s3 setup_logs.
           setup_counters s3 = setup_counters s \<and> last_candle_data s3 = last_candle_data s
           \<and> last_kline_start_time s3 = last_kline_start_time s
           \<and> setup_step r s3 = (setup_logs, s') \<and> logs = Info_candle r # setup_logs"
proof (rule process_candle_data_Inr [OF assms])
  fix ha_open ha_close kept_trades r s3 setup_logs
    and candle_start_ms candle_end_ms :: int
  assume "s3 = s\<lparr>last_ha_open := Some ha_open, last_ha_close := Some ha_close,
               trade_buffer := kept_trades,
               bbo_buffer := snd (drain_bbo candle_start_ms candle_end_ms (bbo_buffer s))\<rparr>"
    and "setup_step r s3 = (setup_logs, s')"
    and "logs = Info_candle r # setup_logs"
  then show ?thesis
    by (intro exI [of _ r] exI [of _ s3] exI [of _ setup_logs]) (simp add: setup_counters_def)
qed

lemma process_candle_data_inv:
  assumes "setup_inv s"
  shows "setup_inv (snd (process_candle_data L candle s))"
proof -
  obtain res s' where p: "process_candle_data L candle s = (res, s')"
    by (cases "process_candle_data L candle s")
  show ?thesis
  proof (cases res)
    case (Inl e)
    with p have "process_candle_data L candle s = (Inl e, s')" by simp
    then have "setup_counters s' = setup_counters s"
      by (rule process_candle_data_Inl [THEN conjunct1])
    with assms p setup_inv_cong [of s' s] show ?thesis by simp
  next
    case (Inr logs)
    with p have "process_candle_data L candle s = (Inr logs, s')" by simp
    from process_candle_data_Inr_setup [OF this] obtain r s3 setup_logs
      where c: "setup_counters s3 = setup_counters s"
        and st: "setup_step r s3 = (setup_logs, s')"
      by blast
    from c assms setup_inv_cong [of s3 s] have "setup_inv s3" by simp
    then have "setup_inv (snd (setup_step r s3))" by (rule setup_step_inv)
    with st p show ?thesis by simp
  qed
qed

lemma handle_kline_message_inv:
  assumes "setup_inv s"
  shows "setup_inv (snd (handle_kline_message L m s))"
proof -
  have "setup_inv (s\<lparr>last_kline_start_time := v\<rparr>)" for v
    using assms by (simp add: setup_inv_def)
  then have "setup_inv (snd (process_candle_data L c (s\<lparr>last_kline_start_time := v\<rparr>)))"
    for c v
    by (rule process_candle_data_inv)
  with assms show ?thesis
    unfolding handle_kline_message_def
    by (auto simp: getitem_def split: list.splits option.splits)
qed

lemma deliver_inv:
  assumes "setup_inv s"
  shows "setup_inv (snd (deliver L ev s))"
proof (cases ev)
  case (Trade_message m)
  with assms show ?thesis
    by (simp add: handle_trade_message_def setup_inv_def)
next
  case (Bbo_message m)
  with assms show ?thesis
    by (simp add: handle_bbo_message_def setup_inv_def split: sum.splits)
next
  case (Kline_message m)
  from assms have "setup_inv (snd (handle_kline_message L m s))"
    by (rule handle_kline_message_inv)
  with Kline_message show ?thesis
    by (auto split: prod.splits sum.splits)
qed

lemma run_inv: "setup_inv s \<Longrightarrow> setup_inv (snd (run L s evs))"
proof (induction evs arbitrary: s)
  case Nil
  then show ?case by simp
next
  case (Cons ev evs)
  from Cons.prems have "setup_inv (snd (deliver L ev s))" by (rule deliver_inv)
  then have "setup_inv (snd (run L (snd (deliver L ev s)) evs))" by (rule Cons.IH)
  then show ?case by (simp add: split_beta)
qed

text \<open>
  C10. In every state that a new tracker reaches through any sequence of trade, BBO and
  kline messages, and in every state that the setup logic alone reaches from the initial
  counters on any sequence of records, the cooldown lies between 0 and 5, the
  consolidation watch between 0 and 3, and the green streak is not negative.
\<close>

theorem counters_bounded:
  "(let s = snd (run L init_tracker evs)
    in 0 \<le> alert_cooldown s \<and> alert_cooldown s \<le> 5
       \<and> 0 \<le> consolidation_watch_countdown s \<and> consolidation_watch_countdown s \<le> 3
       \<and> 0 \<le> ha_green_streak s)
   \<and> (let s = snd (setup_run init_tracker rs)
    in 0 \<le> alert_cooldown s \<and> alert_cooldown s \<le> 5
       \<and> 0 \<le> consolidation_watch_countdown s \<and> consolidation_watch_countdown s \<le> 3
       \<and> 0 \<le> ha_green_streak s)"
  using run_inv [OF setup_inv_init, of L evs] setup_run_inv [OF setup_inv_init, of rs]
  by (simp add: setup_inv_def Let_def ALERT_COOLDOWN_PERIOD_def CONSOLIDATION_WATCH_PERIOD_def)

subsection \<open>Cooldown\<close>

text \<open>
  The cooldown is decremented before it is tested. With two or more candles of
  cooldown left nothing is written; an alert sets the cooldown to five, so the four
  candles that follow an alert are silent.
\<close>

lemma cooldown_blocks:
  assumes "2 \<le> alert_cooldown s"
  shows "\<not> list_ex is_alert (fst (setup_step r s))
         \<and> alert_cooldown (snd (setup_step r s)) = alert_cooldown s - 1"
  using assms by (auto simp: setup_step_def run_trade_setup_logic_def Let_def split_beta)

lemma alert_sets_cooldown:
  assumes "list_ex is_alert (fst (setup_step r s))"
  shows "alert_cooldown (snd (setup_step r s)) = 5 \<and> alert_cooldown s \<le> 1"
  using assms
  by (auto simp: setup_step_def run_trade_setup_logic_def Let_def split_beta
      ALERT_COOLDOWN_PERIOD_def split: if_splits)

lemma silent_while_cooling:
  "int (length rs) < alert_cooldown s \<Longrightarrow> fst (setup_run s rs) = replicate (length rs) False"
proof (induction rs arbitrary: s)
  case Nil
  then show ?case by simp
next
  case (Cons r rs)
  from Cons.prems have c: "2 \<le> alert_cooldown s" by simp
  from cooldown_blocks [OF c, of r] Cons.prems
  have "\<not> list_ex is_alert (fst (setup_step r s))"
    and "int (length rs) < alert_cooldown (snd (setup_step r s))"
    by simp_all
  with Cons.IH [of "snd (setup_step r s)"] show ?case
    by (simp add: split_beta)
qed

lemma four_candles_silent_after_alert:
  assumes "list_ex is_alert (fst (setup_step r s))" and "length rs \<le> 4"
  shows "fst (setup_run (snd (setup_step r s)) rs) = replicate (length rs) False"
  using alert_sets_cooldown [OF assms(1)] assms(2) by (intro silent_while_cooling) simp

text \<open>
  C1. The claim fails on the fifth candle after an alert. Nine records in a row: three
  green ones, a green one with both metrics at 0.6 (the strict entry fires and the
  cooldown is set to 5), a red one, three green ones, and again a green one with both
  metrics at 0.6. On the ninth record, the fifth after the alert, the cooldown reaches 0
  before it is tested, the streak is 4 again, and a second alert is written.
\<close>

theorem alert_on_fifth_candle_after_alert:
  "fst (setup_run init_tracker
     [green_record (1 / 2) (1 / 2), green_record (1 / 2) (1 / 2), green_record (1 / 2) (1 / 2),
      green_record (6 / 10) (6 / 10),
      red_record (1 / 2) (1 / 2),
      green_record (1 / 2) (1 / 2), green_record (1 / 2) (1 / 2), green_record (1 / 2) (1 / 2),
      green_record (6 / 10) (6 / 10)])
   = [False, False, False, True, False, False, False, False, True]"
  by code_simp

section \<open>Candle dispatcher\<close>

subsection \<open>Sample messages\<close>

lemma sample_candle_items:
  "sample_candle k op hi lo cl ''start'' = Some (PyInt (60000 * k))"
  "sample_candle k op hi lo cl ''end'' = Some (PyInt (60000 * k + 59999))"
  "sample_candle k op hi lo cl ''open'' = Some (PyFloat op)"
  "sample_candle k op hi lo cl ''high'' = Some (PyFloat hi)"
  "sample_candle k op hi lo cl ''low'' = Some (PyFloat lo)"
  "sample_candle k op hi lo cl ''close'' = Some (PyFloat cl)"
  "sample_candle k op hi lo cl ''confirm'' = Some (PyBool True)"
  by (simp_all add: sample_candle_def)

lemma sample_trade_items:
  "sample_trade t side vol ''T'' = Some (PyInt t)"
  "sample_trade t side vol ''S'' = Some (PyStr side)"
  "sample_trade t side vol ''v'' = Some vol"
  by (simp_all add: sample_trade_def)

lemma candle_fields_sample:
  "candle_fields L (sample_candle k op hi lo cl) =
     Inr (60000 * k, 60000 * k + 59999, op, hi, lo, cl)"
  by (simp add: candle_fields_def int_item_def float_item_def getitem_def sample_candle_items)

subsection \<open>Duplicate candles\<close>

text \<open>
  C9. A confirmed candle whose \<^verbatim>\<open>start\<close> equals the stored
  \<^verbatim>\<open>last_kline_start_time\<close> is ignored by both trackers: nothing is logged and the
  tracker that comes back is the one that went in, buffers, Heikin-Ashi pair,
  cumulative delta, counters and stored start included.
\<close>

theorem duplicate_candle_ignored:
  assumes "message_data m = candle # rest" and "candle ''start'' = Some start"
  shows "(py_truthy (candle ''confirm'') \<and> py_eq (last_kline_start_time s) start
            \<longrightarrow> handle_kline_message L m s = (Inr [], s))
       \<and> (candle ''confirm'' = Some (PyBool True) \<and> py_eq (last_kline_start_time_cvd c) start
            \<longrightarrow> handle_kline_message_cvd L m c = (Inr None, c))"
  using assms by (simp add: handle_kline_message_def handle_kline_message_cvd_def getitem_def)

theorem duplicate_candle_ignored_witness:
  "handle_kline_message lib0 (Some [sample_candle 1 100 110 100 104])
       (init_tracker\<lparr>last_kline_start_time := PyInt 60000, ha_green_streak := 3\<rparr>)
     = (Inr [], init_tracker\<lparr>last_kline_start_time := PyInt 60000, ha_green_streak := 3\<rparr>)
   \<and> handle_kline_message_cvd lib0 (Some [sample_candle 1 100 110 100 104])
       ((init_tracker_cvd 100)\<lparr>last_kline_start_time_cvd := PyInt 60000\<rparr>)
     = (Inr None, (init_tracker_cvd 100)\<lparr>last_kline_start_time_cvd := PyInt 60000\<rparr>)"
  using duplicate_candle_ignored [where m = "Some [sample_candle 1 100 110 100 104]"
      and candle = "sample_candle 1 100 110 100 104" and rest = "[]" and start = "PyInt 60000"
      and s = "init_tracker\<lparr>last_kline_start_time := PyInt 60000, ha_green_streak := 3\<rparr>"
      and c = "(init_tracker_cvd 100)\<lparr>last_kline_start_time_cvd := PyInt 60000\<rparr>"
      and L = lib0]
  by (simp add: message_data_def sample_candle_items)

subsection \<open>Window extraction\<close>

lemma filter_err_total:
  "\<forall>x\<in>set xs. c x = Inr (p x) \<Longrightarrow> filter_err c xs = Inr (filter p xs)"
  by (induction xs) simp_all

lemma int_item_readable:
  "readable_time L t \<Longrightarrow> int_item L t ''T'' = Inr (trade_time L t)"
  by (simp add: readable_time_def trade_time_def split: sum.splits)

lemma in_window_readable:
  assumes "\<forall>t\<in>set buf. readable_time L t"
  shows "filter_err (trade_in_window L a b) buf =
           Inr (filter (\<lambda>t. a \<le> trade_time L t \<and> trade_time L t \<le> b) buf)"
  using assms by (intro filter_err_total) (simp add: trade_in_window_def int_item_readable)

lemma after_window_readable:
  assumes "\<forall>t\<in>set buf. readable_time L t"
  shows "filter_err (trade_after_window L b) buf = Inr (filter (\<lambda>t. b < trade_time L t) buf)"
  using assms by (intro filter_err_total) (simp add: trade_after_window_def int_item_readable)

text \<open>
  C7. For a buffer whose trades all have a timestamp that \<^verbatim>\<open>int\<close> reads, and for
  every window, the trades handed to the aggregation are exactly those with
  \<open>start \<le> T \<le> end\<close>, in buffer order, and the buffer kept is exactly those with
  \<open>T > end\<close>; the two comprehensions of trade\_exhaust2.py give the same lists. The
  BBO buffer is split in the same way on its \<^verbatim>\<open>ts\<close>. So a trade older than the window
  is in neither list.
\<close>

theorem window_extraction:
  assumes "\<forall>t\<in>set buf. readable_time L t"
  shows "drain_trades L a b buf =
           Inr (filter (\<lambda>t. a \<le> trade_time L t \<and> trade_time L t \<le> b) buf,
                filter (\<lambda>t. b < trade_time L t) buf)
       \<and> filter_err (trade_in_window L a b) buf =
           Inr (filter (\<lambda>t. a \<le> trade_time L t \<and> trade_time L t \<le> b) buf)
       \<and> filter_err (trade_after_window L b) buf = Inr (filter (\<lambda>t. b < trade_time L t) buf)
       \<and> drain_bbo a b bs =
           (filter (\<lambda>x. a \<le> ts x \<and> ts x \<le> b) bs, filter (\<lambda>x. b < ts x) bs)"
  using in_window_readable [OF assms] after_window_readable [OF assms]
  by (simp add: drain_trades_def drain_bbo_def)

theorem window_extraction_witness:
  "drain_trades lib0 60000 119999
     [sample_trade 59999 ''Buy'' (PyStr ''1''), sample_trade 60000 ''Buy'' (PyStr ''2''),
      sample_trade 119999 ''Sell'' (PyStr ''3''), sample_trade 120000 ''Sell'' (PyStr ''4'')]
   = Inr ([sample_trade 60000 ''Buy'' (PyStr ''2''), sample_trade 119999 ''Sell'' (PyStr ''3'')],
          [sample_trade 120000 ''Sell'' (PyStr ''4'')])"
  using window_extraction [where buf =
      "[sample_trade 59999 ''Buy'' (PyStr ''1''), sample_trade 60000 ''Buy'' (PyStr ''2''),
        sample_trade 119999 ''Sell'' (PyStr ''3''), sample_trade 120000 ''Sell'' (PyStr ''4'')]"
      and L = lib0 and a = 60000 and b = 119999 and bs = "[]"]
  by (simp add: readable_time_def trade_time_def int_item_def getitem_def sample_trade_items)

section \<open>Heikin-Ashi transform\<close>

text \<open>
  The stored pair. Both halves are written together, so in every state a new tracker
  reaches the stored open is there exactly when the stored close is.
\<close>

lemma process_candle_data_ha_paired:
  assumes "ha_paired s"
  shows "ha_paired (snd (process_candle_data L candle s))"
proof -
  obtain res s' where p: "process_candle_data L candle s = (res, s')"
    by (cases "process_candle_data L candle s")
  show ?thesis
  proof (cases res)
    case (Inl e)
    with p assms show ?thesis
      unfolding process_candle_data_def Let_def
      by (auto simp: ha_paired_def split_beta split: sum.splits)
  next
    case (Inr logs)
    with p have "process_candle_data L candle s = (Inr logs, s')" by simp
    then show ?thesis
    proof (rule process_candle_data_Inr)
      fix ha_open ha_close kept_trades r s3 setup_logs
        and candle_start_ms candle_end_ms :: int
      assume "s3 = s\<lparr>last_ha_open := Some ha_open, last_ha_close := Some ha_close,
                   trade_buffer := kept_trades,
                   bbo_buffer := snd (drain_bbo candle_start_ms candle_end_ms (bbo_buffer s))\<rparr>"
        and "setup_step r s3 = (setup_logs, s')"
      then have "ha_paired s'"
        by (auto simp: ha_paired_def setup_step_def run_trade_setup_logic_def Let_def
            split_beta split: if_splits)
      with p show ?thesis by simp
    qed
  qed
qed

lemma deliver_ha_paired:
  assumes "ha_paired s"
  shows "ha_paired (snd (deliver L ev s))"
proof (cases ev)
  case (Trade_message m)
  with assms show ?thesis
    by (simp add: handle_trade_message_def ha_paired_def)
next
  case (Bbo_message m)
  with assms show ?thesis
    by (simp add: handle_bbo_message_def ha_paired_def split: sum.splits)
next
  case (Kline_message m)
  have "ha_paired (s\<lparr>last_kline_start_time := v\<rparr>)" for v
    using assms by (simp add: ha_paired_def)
  then have "ha_paired (snd (process_candle_data L c (s\<lparr>last_kline_start_time := v\<rparr>)))"
    for c v
    by (rule process_candle_data_ha_paired)
  with assms have "ha_paired (snd (handle_kline_message L m s))"
    unfolding handle_kline_message_def
    by (auto simp: getitem_def split: list.splits option.splits)
  with Kline_message show ?thesis
    by (auto split: prod.splits sum.splits)
qed

lemma run_ha_paired: "ha_paired s \<Longrightarrow> ha_paired (snd (run L s evs))"
proof (induction evs arbitrary: s)
  case Nil
  then show ?case by simp
next
  case (Cons ev evs)
  from Cons.prems have "ha_paired (snd (deliver L ev s))" by (rule deliver_ha_paired)
  then have "ha_paired (snd (run L (snd (deliver L ev s)) evs))" by (rule Cons.IH)
  then show ?case by (simp add: split_beta)
qed

lemma reachable_ha_paired: "ha_paired (snd (run L init_tracker evs))"
  by (rule run_ha_paired) (simp add: ha_paired_def init_tracker_def)

lemma heikin_ashi_paired:
  assumes "ha_paired s"
  shows "heikin_ashi (last_ha_open s) (last_ha_close s) op hi lo cl =
           Inr (ha_open_of s op cl, (op + hi + lo + cl) / 4,
                if (op + hi + lo + cl) / 4 > ha_open_of s op cl then ''Green'' else ''Red'')"
  using assms
  by (cases "last_ha_open s"; cases "last_ha_close s")
     (simp_all add: heikin_ashi_def ha_paired_def ha_open_of_def Let_def)

text \<open>
  C5. Once the six fields of the candle have been read, whatever happens later in
  \<^verbatim>\<open>process_candle_data\<close> (an exception from the timestamp or from a buffered trade,
  an entry check that fails or holds), the tracker that comes back stores
  \<open>(open + high + low + close) / 4\<close> as the Heikin-Ashi close and, as the Heikin-Ashi
  open, \<open>(open + close) / 2\<close> when nothing was stored before and the mean of the stored
  pair otherwise. The record that is logged is Green exactly when that close is greater
  than that open, and Red otherwise, also when they are equal; it carries the two
  values rounded to five places.
\<close>

theorem heikin_ashi_update:
  assumes "candle_fields L candle = Inr (candle_start_ms, candle_end_ms, op, hi, lo, cl)"
    and "ha_paired s"
    and "process_candle_data L candle s = (res, s')"
  shows "last_ha_close s' = Some ((op + hi + lo + cl) / 4)
       \<and> (last_ha_open s = None \<longrightarrow> last_ha_open s' = Some ((op + cl) / 2))
       \<and> (\<forall>po pc. last_ha_open s = Some po \<and> last_ha_close s = Some pc
             \<longrightarrow> last_ha_open s' = Some ((po + pc) / 2))
       \<and> (\<forall>logs. res = Inr logs \<longrightarrow>
             (\<exists>r rest ha_open ha_close.
                logs = Info_candle r # rest
                \<and> last_ha_open s' = Some ha_open \<and> last_ha_close s' = Some ha_close
                \<and> HA_color r = (if ha_close > ha_open then ''Green'' else ''Red'')
                \<and> HA_open r = py_round ha_open 5 \<and> HA_close r = py_round ha_close 5))"
proof -
  let ?ho = "ha_open_of s op cl" and ?hc = "(op + hi + lo + cl) / 4"
  note ha = heikin_ashi_paired [OF assms(2), of op hi lo cl]
  have st: "last_ha_open s' = Some ?ho \<and> last_ha_close s' = Some ?hc"
  proof (cases res)
    case (Inl e)
    with assms(1,3) ha show ?thesis
      unfolding process_candle_data_def Let_def
      by (auto simp: split_beta split: sum.splits)
  next
    case (Inr logs)
    with assms(3) have "process_candle_data L candle s = (Inr logs, s')" by simp
    then show ?thesis
    proof (rule process_candle_data_Inr)
      fix a b p1 p2 p3 p4 ha_open ha_close ha_color kept_trades r s3 setup_logs
      assume "candle_fields L candle = Inr (a, b, p1, p2, p3, p4)"
        and "heikin_ashi (last_ha_open s) (last_ha_close s) p1 p2 p3 p4 =
               Inr (ha_open, ha_close, ha_color)"
        and "s3 = s\<lparr>last_ha_open := Some ha_open, last_ha_close := Some ha_close,
                   trade_buffer := kept_trades,
                   bbo_buffer := snd (drain_bbo a b (bbo_buffer s))\<rparr>"
        and "setup_step r s3 = (setup_logs, s')"
      with assms(1) ha show ?thesis
        by (auto simp: setup_step_def run_trade_setup_logic_def Let_def
            split_beta split: if_splits)
    qed
  qed
  have col: "\<exists>r rest. logs = Info_candle r # rest
               \<and> HA_color r = (if ?hc > ?ho then ''Green'' else ''Red'')
               \<and> HA_open r = py_round ?ho 5 \<and> HA_close r = py_round ?hc 5"
    if "res = Inr logs" for logs
  proof -
    from that assms(3) have "process_candle_data L candle s = (Inr logs, s')" by simp
    then show ?thesis
    proof (rule process_candle_data_Inr)
      fix a b p1 p2 p3 p4 ha_open ha_close ha_color formatted_timestamp
        buy_volume sell_volume r setup_logs
      assume "candle_fields L candle = Inr (a, b, p1, p2, p3, p4)"
        and "heikin_ashi (last_ha_open s) (last_ha_close s) p1 p2 p3 p4 =
               Inr (ha_open, ha_close, ha_color)"
        and "r = \<lparr>utc = formatted_timestamp,
             close_price = p4,
             HA_open = py_round ha_open 5,
             HA_close = py_round ha_close 5,
             HA_color = ha_color,
             agg_ratio = py_round (aggression_ratio buy_volume sell_volume) 4,
             avg_bbo_imba = py_round (bbo_imbalance_mean
                (fst (drain_bbo a b (bbo_buffer s)))) 4\<rparr>"
        and "logs = Info_candle r # setup_logs"
      with assms(1) ha show ?thesis by auto
    qed
  qed
  from st have a: "last_ha_close s' = Some ?hc"
    by simp
  from st have b: "last_ha_open s = None \<longrightarrow> last_ha_open s' = Some ((op + cl) / 2)"
    by (simp add: ha_open_of_def)
  from st have c: "\<forall>po pc. last_ha_open s = Some po \<and> last_ha_close s = Some pc
                     \<longrightarrow> last_ha_open s' = Some ((po + pc) / 2)"
    by (simp add: ha_open_of_def)
  have d: "\<forall>logs. res = Inr logs \<longrightarrow>
             (\<exists>r rest ha_open ha_close.
                logs = Info_candle r # rest
                \<and> last_ha_open s' = Some ha_open \<and> last_ha_close s' = Some ha_close
                \<and> HA_color r = (if ha_close > ha_open then ''Green'' else ''Red'')
                \<and> HA_open r = py_round ha_open 5 \<and> HA_close r = py_round ha_close 5)"
  proof (intro allI impI)
    fix logs
    assume "res = Inr logs"
    from col [OF this] obtain r rest
      where "logs = Info_candle r # rest"
        and "HA_color r = (if ?hc > ?ho then ''Green'' else ''Red'')"
        and "HA_open r = py_round ?ho 5" and "HA_close r = py_round ?hc 5"
      by blast
    with st show "\<exists>r rest ha_open ha_close.
                logs = Info_candle r # rest
                \<and> last_ha_open s' = Some ha_open \<and> last_ha_close s' = Some ha_close
                \<and> HA_color r = (if ha_close > ha_open then ''Green'' else ''Red'')
                \<and> HA_open r = py_round ha_open 5 \<and> HA_close r = py_round ha_close 5"
      by (intro exI [of _ r] exI [of _ rest] exI [of _ ?ho] exI [of _ ?hc]) simp
  qed
  from a b c d show ?thesis
    by (intro conjI)
qed


theorem heikin_ashi_update_witness:
  "last_ha_close (snd (process_candle_data lib0 (sample_candle 1 100 110 100 104) init_tracker))
     = Some (207 / 2)
   \<and> last_ha_open (snd (process_candle_data lib0 (sample_candle 1 100 110 100 104) init_tracker))
     = Some 102
   \<and> last_ha_open (snd (process_candle_data lib0 (sample_candle 2 105 105 105 105)
        (init_tracker\<lparr>last_ha_open := Some 102, last_ha_close := Some (207 / 2)\<rparr>)))
     = Some (411 / 4)"
proof -
  let ?s = "init_tracker\<lparr>last_ha_open := Some 102, last_ha_close := Some (207 / 2)\<rparr>"
  have p1: "ha_paired init_tracker" and p2: "ha_paired ?s"
    by (simp_all add: ha_paired_def init_tracker_def)
  note first = heikin_ashi_update [OF candle_fields_sample p1 prod.collapse [symmetric],
      of lib0 1 100 110 100 104]
  note second = heikin_ashi_update [OF candle_fields_sample p2 prod.collapse [symmetric],
      of lib0 2 105 105 105 105]
  from first have "last_ha_close
      (snd (process_candle_data lib0 (sample_candle 1 100 110 100 104) init_tracker))
      = Some (207 / 2)"
    by simp
  moreover from first have "last_ha_open
      (snd (process_candle_data lib0 (sample_candle 1 100 110 100 104) init_tracker))
      = Some 102"
    by (simp add: init_tracker_def)
  moreover from second have "\<forall>po pc. last_ha_open ?s = Some po \<and> last_ha_close ?s = Some pc
      \<longrightarrow> last_ha_open (snd (process_candle_data lib0 (sample_candle 2 105 105 105 105) ?s))
          = Some ((po + pc) / 2)"
    by (elim conjE)
  then have "last_ha_open ?s = Some 102 \<and> last_ha_close ?s = Some (207 / 2)
      \<longrightarrow> last_ha_open (snd (process_candle_data lib0 (sample_candle 2 105 105 105 105) ?s))
          = Some ((102 + 207 / 2) / 2)"
    by blast
  then have "last_ha_open (snd (process_candle_data lib0 (sample_candle 2 105 105 105 105) ?s))
      = Some (411 / 4)"
    by simp
  ultimately show ?thesis
    by (intro conjI)
qed

section \<open>Cumulative volume delta\<close>

subsection \<open>One candle\<close>

lemma filter_err_Inr_all: "filter_err c xs = Inr ys \<Longrightarrow> \<forall>x\<in>set xs. \<exists>b. c x = Inr b"
  by (induction xs arbitrary: ys) (auto split: sum.splits)

lemma in_window_Inr_readable:
  assumes "filter_err (trade_in_window L a b) buf = Inr r"
  shows "\<forall>t\<in>set buf. readable_time L t"
proof
  fix t
  assume "t \<in> set buf"
  with filter_err_Inr_all [OF assms] obtain w where "trade_in_window L a b t = Inr w"
    by blast
  then show "readable_time L t"
    by (simp add: trade_in_window_def readable_time_def split: sum.splits)
qed

lemma candle_volumes_cvd_readable:
  assumes "candle_volumes_cvd L candle buf = Inr x"
  shows "\<forall>t\<in>set buf. readable_time L t"
proof -
  from assms obtain a b r where "filter_err (trade_in_window L a b) buf = Inr r"
    unfolding candle_volumes_cvd_def by (auto split: sum.splits)
  then show ?thesis by (rule in_window_Inr_readable)
qed

text \<open>
  An exception can only come from the part that reads the candle and the buffer, and
  then the tracker is untouched. Otherwise the volume delta of the window is added to
  the cumulative delta, the sum is appended to the history, and the trades up to the
  end of the window leave the buffer.
\<close>

lemma process_candle_data_cvd_Inl:
  assumes "candle_volumes_cvd L candle (trade_buffer_cvd s) = Inl e"
  shows "process_candle_data_cvd L candle s = (Inl e, s)"
  using assms by (simp add: process_candle_data_cvd_def)

lemma process_candle_data_cvd_Inr:
  assumes "candle_volumes_cvd L candle (trade_buffer_cvd s) =
             Inr (candle_end_ms, candle_close_price, formatted_timestamp, buy_volume, sell_volume)"
  shows "\<exists>output.
           process_candle_data_cvd L candle s =
             (Inr output,
              s\<lparr>cumulative_volume_delta :=
                   cumulative_volume_delta s + (buy_volume - sell_volume),
                 cvd_history :=
                   deque_append (cvd_zscore_period s) (cvd_history s)
                     (cumulative_volume_delta s + (buy_volume - sell_volume)),
                 trade_buffer_cvd :=
                   filter (\<lambda>t. candle_end_ms < trade_time L t) (trade_buffer_cvd s)\<rparr>)
           \<and> out_cvd output =
               py_round (cumulative_volume_delta s + (buy_volume - sell_volume)) 4
           \<and> out_delta output = py_round (buy_volume - sell_volume) 4"
proof -
  from candle_volumes_cvd_readable [OF assms]
  have "filter_err (trade_after_window L candle_end_ms) (trade_buffer_cvd s) =
          Inr (filter (\<lambda>t. candle_end_ms < trade_time L t) (trade_buffer_cvd s))"
    by (rule after_window_readable)
  with assms show ?thesis
    by (simp add: process_candle_data_cvd_def Let_def)
qed

lemma process_candle_data_cvd_delta:
  "cumulative_volume_delta (snd (process_candle_data_cvd L candle s)) =
     cumulative_volume_delta s + volume_delta_cvd L candle (trade_buffer_cvd s)"
proof (cases "candle_volumes_cvd L candle (trade_buffer_cvd s)")
  case (Inl e)
  then show ?thesis
    by (simp add: process_candle_data_cvd_Inl volume_delta_cvd_def)
next
  case (Inr x)
  obtain b cp st buy sell where "x = (b, cp, st, buy, sell)"
    by (cases x)
  with Inr process_candle_data_cvd_Inr [of L candle s b cp st buy sell] show ?thesis
    by (auto simp: volume_delta_cvd_def)
qed

lemma process_candle_data_cvd_raise:
  assumes "process_candle_data_cvd L candle s = (Inl e, s')"
  shows "s' = s"
proof (cases "candle_volumes_cvd L candle (trade_buffer_cvd s)")
  case (Inl e')
  with assms show ?thesis
    by (simp add: process_candle_data_cvd_Inl)
next
  case (Inr x)
  obtain b cp st buy sell where "x = (b, cp, st, buy, sell)"
    by (cases x)
  with Inr process_candle_data_cvd_Inr [of L candle s b cp st buy sell] assms show ?thesis
    by auto
qed

text \<open>The value in the log line is the cumulative delta rounded to four places.\<close>

lemma logged_cvd_rounded:
  assumes "process_candle_data_cvd L candle s = (Inr output, s')"
  shows "out_cvd output = py_round (cumulative_volume_delta s') 4
       \<and> out_delta output = py_round (volume_delta_cvd L candle (trade_buffer_cvd s)) 4"
proof (cases "candle_volumes_cvd L candle (trade_buffer_cvd s)")
  case (Inl e')
  with assms show ?thesis
    by (simp add: process_candle_data_cvd_Inl)
next
  case (Inr x)
  obtain b cp st buy sell where "x = (b, cp, st, buy, sell)"
    by (cases x)
  with Inr process_candle_data_cvd_Inr [of L candle s b cp st buy sell] assms show ?thesis
    by (auto simp: volume_delta_cvd_def)
qed

subsection \<open>A run of messages\<close>

lemma processed_cvd_step:
  "processed_cvd L ev s = [] \<and>
     cumulative_volume_delta (deliver_cvd L ev s) = cumulative_volume_delta s
   \<or> (\<exists>d. processed_cvd L ev s = [(d, cumulative_volume_delta s + d)]
          \<and> cumulative_volume_delta (deliver_cvd L ev s) = cumulative_volume_delta s + d)"
proof (cases ev)
  case (Trade_message_cvd m)
  then show ?thesis by (simp add: handle_trade_message_cvd_def)
next
  case (Kline_message_cvd m)
  show ?thesis
  proof (cases "message_data m")
    case Nil
    with Kline_message_cvd show ?thesis
      by (simp add: handle_kline_message_cvd_def)
  next
    case (Cons candle rest)
    let ?t = "\<lambda>start. s\<lparr>last_kline_start_time_cvd := start\<rparr>"
    have raise: "process_candle_data_cvd L candle (?t start) = (Inl e, s') \<Longrightarrow>
        cumulative_volume_delta s' = cumulative_volume_delta s" for start e s'
      by (drule process_candle_data_cvd_raise) simp
    have ok: "process_candle_data_cvd L candle (?t start) = (Inr out, s') \<Longrightarrow>
        cumulative_volume_delta s' =
          cumulative_volume_delta s + volume_delta_cvd L candle (trade_buffer_cvd s)"
      for start out s'
      using process_candle_data_cvd_delta [of L candle "?t start"] by simp
    from Kline_message_cvd Cons raise ok show ?thesis
      by (auto simp: handle_kline_message_cvd_def split: sum.splits prod.splits)
  qed
qed

lemma trace_cvd_sums:
  "k < length (trace_cvd L s evs) \<Longrightarrow>
     snd (trace_cvd L s evs ! k) =
       cumulative_volume_delta s + sum_list (map fst (take (Suc k) (trace_cvd L s evs)))"
proof (induction evs arbitrary: s k)
  case Nil
  then show ?case by simp
next
  case (Cons ev evs)
  let ?s' = "deliver_cvd L ev s"
  from processed_cvd_step [of L ev s] show ?case
  proof (elim disjE conjE exE)
    assume "processed_cvd L ev s = []"
      and "cumulative_volume_delta ?s' = cumulative_volume_delta s"
    with Cons.prems Cons.IH [of k ?s'] show ?thesis by simp
  next
    fix d
    assume p: "processed_cvd L ev s = [(d, cumulative_volume_delta s + d)]"
      and c: "cumulative_volume_delta ?s' = cumulative_volume_delta s + d"
    show ?thesis
    proof (cases k)
      case 0
      with p show ?thesis by simp
    next
      case (Suc j)
      with Cons.prems p have "j < length (trace_cvd L ?s' evs)" by simp
      from Cons.IH [OF this] Suc p c show ?thesis by simp
    qed
  qed
qed

lemma run_cvd_sum:
  "cumulative_volume_delta (run_cvd L s evs) =
     cumulative_volume_delta s + sum_list (map fst (trace_cvd L s evs))"
proof (induction evs arbitrary: s)
  case Nil
  then show ?case by simp
next
  case (Cons ev evs)
  from processed_cvd_step [of L ev s] Cons.IH [of "deliver_cvd L ev s"] show ?case
    by auto
qed

subsection \<open>The history plays no part\<close>

lemma candle_same_but_history:
  assumes "same_but_history s t"
  shows "same_but_history (snd (process_candle_data_cvd L candle s))
           (snd (process_candle_data_cvd L candle t))
       \<and> (\<exists>e. fst (process_candle_data_cvd L candle s) = Inl e)
           = (\<exists>e. fst (process_candle_data_cvd L candle t) = Inl e)
       \<and> (fst (process_candle_data_cvd L candle s) = Inl e
           \<longleftrightarrow> fst (process_candle_data_cvd L candle t) = Inl e)"
proof (cases "candle_volumes_cvd L candle (trade_buffer_cvd s)")
  case (Inl e')
  with assms have "candle_volumes_cvd L candle (trade_buffer_cvd t) = Inl e'"
    by (simp add: same_but_history_def)
  with Inl assms show ?thesis
    by (simp add: process_candle_data_cvd_Inl)
next
  case (Inr x)
  obtain b cp st buy sell where x: "x = (b, cp, st, buy, sell)"
    by (cases x)
  with Inr assms have "candle_volumes_cvd L candle (trade_buffer_cvd t) = Inr (b, cp, st, buy, sell)"
    by (simp add: same_but_history_def)
  from process_candle_data_cvd_Inr [OF this] Inr x
    process_candle_data_cvd_Inr [of L candle s b cp st buy sell] assms
  show ?thesis
    by (auto simp: same_but_history_def)
qed

lemma deliver_same_but_history:
  assumes "same_but_history s t"
  shows "same_but_history (deliver_cvd L ev s) (deliver_cvd L ev t)
       \<and> processed_cvd L ev s = processed_cvd L ev t"
proof (cases ev)
  case (Trade_message_cvd m)
  with assms show ?thesis
    by (simp add: handle_trade_message_cvd_def same_but_history_def)
next
  case (Kline_message_cvd m)
  show ?thesis
  proof (cases "message_data m")
    case Nil
    with Kline_message_cvd assms show ?thesis
      by (simp add: handle_kline_message_cvd_def)
  next
    case (Cons candle rest)
    have upd: "same_but_history (s\<lparr>last_kline_start_time_cvd := start\<rparr>)
                 (t\<lparr>last_kline_start_time_cvd := start\<rparr>)" for start
      using assms by (simp add: same_but_history_def)
    note step = candle_same_but_history [OF upd, of L candle]
    from assms have eq: "last_kline_start_time_cvd s = last_kline_start_time_cvd t"
      "trade_buffer_cvd s = trade_buffer_cvd t"
      by (simp_all add: same_but_history_def)
    show ?thesis
    proof (cases "candle ''confirm'' = Some (PyBool True)")
      case False
      with Kline_message_cvd Cons assms show ?thesis
        by (simp add: handle_kline_message_cvd_def)
    next
      case True
      show ?thesis
      proof (cases "candle ''start''")
        case None
        with True Kline_message_cvd Cons assms show ?thesis
          by (simp add: handle_kline_message_cvd_def getitem_def)
      next
        case (Some start)
        show ?thesis
        proof (cases "py_eq (last_kline_start_time_cvd s) start")
          case dup: True
          with Some True Kline_message_cvd Cons assms eq show ?thesis
            by (simp add: handle_kline_message_cvd_def getitem_def)
        next
          case new: False
          let ?ps = "process_candle_data_cvd L candle (s\<lparr>last_kline_start_time_cvd := start\<rparr>)"
          let ?pt = "process_candle_data_cvd L candle (t\<lparr>last_kline_start_time_cvd := start\<rparr>)"
          have hs: "handle_kline_message_cvd L m s =
              (case ?ps of (Inl e, s') \<Rightarrow> (Inl e, s') | (Inr output, s') \<Rightarrow> (Inr (Some output), s'))"
            using new Some True Cons by (simp add: handle_kline_message_cvd_def getitem_def)
          have ht: "handle_kline_message_cvd L m t =
              (case ?pt of (Inl e, s') \<Rightarrow> (Inl e, s') | (Inr output, s') \<Rightarrow> (Inr (Some output), s'))"
            using new Some True Cons eq by (simp add: handle_kline_message_cvd_def getitem_def)
          from step [of start] have sb: "same_but_history (snd ?ps) (snd ?pt)"
            and er: "(\<exists>e. fst ?ps = Inl e) = (\<exists>e. fst ?pt = Inl e)"
            by simp_all
          obtain rs s' where ps: "?ps = (rs, s')" by (cases ?ps)
          obtain rt t' where pt: "?pt = (rt, t')" by (cases ?pt)
          from sb ps pt have sb': "same_but_history s' t'" by simp
          from er ps pt have er': "(\<exists>e. rs = Inl e) = (\<exists>e. rt = Inl e)" by simp
          from Kline_message_cvd hs ht ps pt sb' er' Cons eq show ?thesis
            by (cases rs; cases rt) (auto simp: same_but_history_def)
        qed
      qed
    qed
  qed
qed

lemma trace_cvd_same_but_history:
  "same_but_history s t \<Longrightarrow> trace_cvd L s evs = trace_cvd L t evs"
proof (induction evs arbitrary: s t)
  case Nil
  then show ?case by simp
next
  case (Cons ev evs)
  from deliver_same_but_history [OF Cons.prems, of L ev] Cons.IH show ?case
    by simp
qed

text \<open>
  C8. Feed any sequence of trade and kline messages to a new tracker. For the k-th
  candle that is processed, the tracker's \<^verbatim>\<open>cumulative_volume_delta\<close> right after it
  is the sum of the volume deltas (buy volume minus sell volume of the window) of the
  processed candles 1 to k, and at the end of the run it is the sum over all of them.
  The list of these deltas and sums is the same for every history length, and from any
  tracker it stays the same when the history and its length are replaced.
\<close>

theorem cvd_running_sum:
  "(\<forall>k < length (trace_cvd L (init_tracker_cvd n) evs).
       snd (trace_cvd L (init_tracker_cvd n) evs ! k) =
         sum_list (map fst (take (Suc k) (trace_cvd L (init_tracker_cvd n) evs))))
   \<and> cumulative_volume_delta (run_cvd L (init_tracker_cvd n) evs) =
       sum_list (map fst (trace_cvd L (init_tracker_cvd n) evs))
   \<and> trace_cvd L (init_tracker_cvd n') evs = trace_cvd L (init_tracker_cvd n) evs
   \<and> trace_cvd L (s\<lparr>cvd_history := h, cvd_zscore_period := n\<rparr>) evs = trace_cvd L s evs"
proof -
  have "same_but_history (init_tracker_cvd n') (init_tracker_cvd n)"
    by (simp add: same_but_history_def init_tracker_cvd_def)
  then have "trace_cvd L (init_tracker_cvd n') evs = trace_cvd L (init_tracker_cvd n) evs"
    by (rule trace_cvd_same_but_history)
  moreover have "same_but_history (s\<lparr>cvd_history := h, cvd_zscore_period := n\<rparr>) s"
    by (simp add: same_but_history_def)
  then have "trace_cvd L (s\<lparr>cvd_history := h, cvd_zscore_period := n\<rparr>) evs = trace_cvd L s evs"
    by (rule trace_cvd_same_but_history)
  moreover have "cumulative_volume_delta (init_tracker_cvd n) = 0"
    by (simp add: init_tracker_cvd_def)
  ultimately show ?thesis
    using trace_cvd_sums [of _ L "init_tracker_cvd n" evs] run_cvd_sum [of L "init_tracker_cvd n" evs]
    by simp
qed

subsection \<open>A sample run\<close>

lemma utc_stamp_60000: "utc_stamp lib0 60000 = Inr ''1970-01-01 00:01:00,000''"
  by code_simp

lemma lib0_parsers: "str_int lib0 = str_int0" "str_float lib0 = str_float0"
  by (simp_all add: lib0_def)

lemma str_float0_samples:
  "str_float0 ''1'' = Some 1" "str_float0 ''3'' = Some 3"
  "str_float0 ''54996'' = Some 54996" "str_float0 ''45004'' = Some 45004"
  "str_float0 ''abc'' = None"
  by (simp_all add: str_float0_def unsigned_float_def unsigned_int_def Let_def)

lemma sample_candle_volumes_cvd:
  "candle_volumes_cvd lib0 (sample_candle 1 100 110 100 104)
     [sample_trade 60001 ''Buy'' (PyStr ''3''), sample_trade 60002 ''Sell'' (PyStr ''1'')]
   = Inr (119999, 104, ''1970-01-01 00:01:00,000'', 3, 1)"
  by (simp add: candle_volumes_cvd_def int_item_def float_item_def getitem_def
      sample_candle_items sample_trade_items trade_in_window_def utc_stamp_60000
      lib0_parsers str_float0_samples)

lemma sample_trace_cvd:
  "trace_cvd lib0 (init_tracker_cvd n) sample_events_cvd = [(2, 2)]"
proof -
  let ?buf = "[sample_trade 60001 ''Buy'' (PyStr ''3''), sample_trade 60002 ''Sell'' (PyStr ''1'')]"
  let ?s = "(init_tracker_cvd n)\<lparr>trade_buffer_cvd := ?buf, last_kline_start_time_cvd := PyInt 60000\<rparr>"
  have v: "candle_volumes_cvd lib0 (sample_candle 1 100 110 100 104) (trade_buffer_cvd ?s)
      = Inr (119999, 104, ''1970-01-01 00:01:00,000'', 3, 1)"
    using sample_candle_volumes_cvd by simp
  from process_candle_data_cvd_Inr [OF v] obtain out s'
    where p: "process_candle_data_cvd lib0 (sample_candle 1 100 110 100 104) ?s = (Inr out, s')"
      and c: "cumulative_volume_delta s' = 2"
    by (auto simp: init_tracker_cvd_def)
  have d: "volume_delta_cvd lib0 (sample_candle 1 100 110 100 104) ?buf = 2"
    by (simp add: volume_delta_cvd_def sample_candle_volumes_cvd)
  have "handle_kline_message_cvd lib0 (Some [sample_candle 1 100 110 100 104])
          ((init_tracker_cvd n)\<lparr>trade_buffer_cvd := ?buf\<rparr>) = (Inr (Some out), s')"
    using p
    by (simp add: handle_kline_message_cvd_def message_data_def sample_candle_items getitem_def
        init_tracker_cvd_def)
  with c d show ?thesis
    by (simp add: sample_events_cvd_def handle_trade_message_cvd_def message_data_def
        init_tracker_cvd_def)
qed

theorem cvd_running_sum_witness:
  "0 < length (trace_cvd lib0 (init_tracker_cvd 100) sample_events_cvd)
   \<and> snd (trace_cvd lib0 (init_tracker_cvd 100) sample_events_cvd ! 0) = 2
   \<and> cumulative_volume_delta (run_cvd lib0 (init_tracker_cvd 100) sample_events_cvd) = 2
   \<and> trace_cvd lib0 (init_tracker_cvd 1) sample_events_cvd = [(2, 2)]"
  using cvd_running_sum [where L = lib0 and n = 100 and evs = sample_events_cvd and n' = 1
      and s = "init_tracker_cvd 100" and h = "[]"]
    sample_trace_cvd [of 100]
  by simp

section \<open>Exceptions and rounding in candle processing\<close>

subsection \<open>Two sample candles, step by step\<close>

lemma py_round_samples:
  "py_round (54996 / 100000) 4 = 55 / 100" "py_round (1 / 2) 4 = 1 / 2"
  "py_round (201 / 2) 5 = 201 / 2" "py_round (207 / 2) 5 = 207 / 2"
  by (simp_all add: py_round_def round_half_even_def Let_def)

lemma bad_volume_run:
  "handle_kline_message lib0 sample_message tracker_bad_volume =
     (Inl ValueError,
      init_tracker\<lparr>last_kline_start_time := PyInt 60000,
                    last_ha_open := Some 102, last_ha_close := Some (207 / 2)\<rparr>)"
proof -
  let ?s = "tracker_bad_volume\<lparr>last_kline_start_time := PyInt 60000\<rparr>"
  have h: "heikin_ashi (last_ha_open ?s) (last_ha_close ?s) 100 110 100 104 =
      Inr (102, 207 / 2, ''Green'')"
    by (simp add: heikin_ashi_def tracker_bad_volume_def init_tracker_def)
  have d: "drain_trades lib0 60000 119999 (trade_buffer ?s) =
      Inr ([sample_trade 60001 ''Buy'' (PyStr ''abc'')], [])"
    by (simp add: drain_trades_def trade_in_window_def trade_after_window_def int_item_def
        getitem_def sample_trade_items tracker_bad_volume_def)
  have v: "side_volume lib0 ''Buy'' 0 [sample_trade 60001 ''Buy'' (PyStr ''abc'')] =
      Inl ValueError"
    by (simp add: float_item_def getitem_def sample_trade_items lib0_parsers str_float0_samples)
  have "process_candle_data lib0 (sample_candle 1 100 110 100 104) ?s =
      (Inl ValueError,
       init_tracker\<lparr>last_kline_start_time := PyInt 60000,
                     last_ha_open := Some 102, last_ha_close := Some (207 / 2)\<rparr>)"
    using h d v
    by (simp add: process_candle_data_def candle_fields_sample utc_stamp_60000 drain_bbo_def
        tracker_bad_volume_def init_tracker_def)
  then show ?thesis
    by (simp add: handle_kline_message_def sample_message_def message_data_def
        sample_candle_items getitem_def tracker_bad_volume_def init_tracker_def)
qed

lemma near_threshold_process:
  "fst (process_candle_data lib0 (sample_candle 1 100 110 100 104)
          (tracker_near_threshold\<lparr>last_kline_start_time := PyInt 60000\<rparr>)) =
     Inr [Info_candle sample_record, Warn_strict_entry ''1970-01-01 00:01:00,000'']"
proof -
  let ?s = "tracker_near_threshold\<lparr>last_kline_start_time := PyInt 60000\<rparr>"
  let ?buf = "[sample_trade 60001 ''Buy'' (PyStr ''54996''),
               sample_trade 60002 ''Sell'' (PyStr ''45004'')]"
  have h: "heikin_ashi (last_ha_open ?s) (last_ha_close ?s) 100 110 100 104 =
      Inr (201 / 2, 207 / 2, ''Green'')"
    by (simp add: heikin_ashi_def tracker_near_threshold_def init_tracker_def)
  have d: "drain_trades lib0 60000 119999 (trade_buffer ?s) = Inr (?buf, [])"
    by (simp add: drain_trades_def trade_in_window_def trade_after_window_def int_item_def
        getitem_def sample_trade_items tracker_near_threshold_def)
  have b: "side_volume lib0 ''Buy'' 0 ?buf = Inr 54996"
    by (simp add: float_item_def getitem_def sample_trade_items lib0_parsers str_float0_samples)
  have se: "side_volume lib0 ''Sell'' 0 ?buf = Inr 45004"
    by (simp add: float_item_def getitem_def sample_trade_items lib0_parsers str_float0_samples)
  show ?thesis
    using h d b se
    by (simp add: process_candle_data_def candle_fields_sample utc_stamp_60000 drain_bbo_def
        aggression_ratio_def bbo_imbalance_mean_def py_round_def round_half_even_def Let_def
        sample_record_def setup_step_def run_trade_setup_logic_def check_entry_conditions_iff
        ALERT_COOLDOWN_PERIOD_def tracker_near_threshold_def init_tracker_def)
qed

lemma near_threshold_run:
  "fst (handle_kline_message lib0 sample_message tracker_near_threshold) =
     Inr [Info_candle sample_record, Warn_strict_entry ''1970-01-01 00:01:00,000'']"
  using near_threshold_process
  by (simp add: handle_kline_message_def sample_message_def message_data_def
      sample_candle_items getitem_def) (simp add: tracker_near_threshold_def init_tracker_def)

subsection \<open>Exceptions\<close>

text \<open>
  C2, as stated, fails. A buffered trade in the window has the volume \<^verbatim>\<open>'abc'\<close>. The
  kline handler raises \<^verbatim>\<open>ValueError\<close> from line 153, after lines 139-140 have stored
  the new Heikin-Ashi pair and lines 148 and 151 have emptied the buffers: the pair has
  gone from nothing to (102, 103.5) for a candle that was not fully processed.
\<close>

theorem exception_after_ha_update:
  "fst (handle_kline_message lib0 sample_message tracker_bad_volume) = Inl ValueError
   \<and> last_ha_open tracker_bad_volume = None
   \<and> last_ha_open (snd (handle_kline_message lib0 sample_message tracker_bad_volume)) = Some 102
   \<and> last_ha_close tracker_bad_volume = None
   \<and> last_ha_close (snd (handle_kline_message lib0 sample_message tracker_bad_volume))
       = Some (207 / 2)
   \<and> trade_buffer tracker_bad_volume = [sample_trade 60001 ''Buy'' (PyStr ''abc'')]
   \<and> trade_buffer (snd (handle_kline_message lib0 sample_message tracker_bad_volume)) = []"
  by (simp add: bad_volume_run) (simp add: tracker_bad_volume_def init_tracker_def)

lemma handle_kline_message_Inl:
  assumes "handle_kline_message L m s = (Inl e, s')"
  shows "s' = s
       \<or> (\<exists>candle rest start.
            message_data m = candle # rest
            \<and> process_candle_data L candle (s\<lparr>last_kline_start_time := start\<rparr>) = (Inl e, s'))"
  using assms unfolding handle_kline_message_def
  by (auto simp: getitem_def split: list.splits option.splits if_splits)

lemma candle_fields_Inl:
  assumes "candle_fields L candle = Inl e'"
  shows "process_candle_data L candle s = (Inl e', s)"
  using assms by (simp add: process_candle_data_def)

lemma handle_kline_message_cvd_Inl:
  assumes "handle_kline_message_cvd L m c = (Inl e, c')"
  shows "c' = c \<or> (\<exists>start. c' = c\<lparr>last_kline_start_time_cvd := start\<rparr>)"
proof -
  have "process_candle_data_cvd L candle (c\<lparr>last_kline_start_time_cvd := start\<rparr>) = (Inl e, c'')
      \<Longrightarrow> c'' = c\<lparr>last_kline_start_time_cvd := start\<rparr>" for candle start c''
    by (rule process_candle_data_cvd_raise)
  with assms show ?thesis
    unfolding handle_kline_message_cvd_def
    by (auto simp: getitem_def split: list.splits option.splits if_splits sum.splits prod.splits)
qed

text \<open>
  C2, amended. A BBO message from which no entry can be built leaves the tracker as it
  was. The kline handler catches nothing. When it raises, the three counters of the
  setup detector and the stored record are as before; when it raises because one of
  the candle's own six fields is missing or does not parse, the whole tracker is as
  before but for \<^verbatim>\<open>last_kline_start_time\<close>. When the kline handler of
  trade\_exhaust2.py raises, its tracker, cumulative delta and history included, is as
  before but for \<^verbatim>\<open>last_kline_start_time\<close>.
\<close>

theorem exceptions_frame:
  "(handle_kline_message L m s = (Inl e, s') \<longrightarrow>
      setup_counters s' = setup_counters s \<and> last_candle_data s' = last_candle_data s)
   \<and> (handle_kline_message L m s = (Inl e, s')
       \<and> candle_fields L (hd (message_data m)) = Inl e' \<longrightarrow>
      s' = s \<or> (\<exists>start. s' = s\<lparr>last_kline_start_time := start\<rparr>))
   \<and> (handle_kline_message_cvd L m c = (Inl e, c') \<longrightarrow>
      c' = c \<or> (\<exists>start. c' = c\<lparr>last_kline_start_time_cvd := start\<rparr>))
   \<and> (bbo_entry L b = Inl e \<longrightarrow> snd (handle_bbo_message L b s) = s)"
proof -
  have a: "setup_counters s' = setup_counters s \<and> last_candle_data s' = last_candle_data s"
    (is ?frame) if h: "handle_kline_message L m s = (Inl e, s')"
    using handle_kline_message_Inl [OF h]
  proof (elim disjE exE conjE)
    fix candle rest start
    assume "process_candle_data L candle (s\<lparr>last_kline_start_time := start\<rparr>) = (Inl e, s')"
    from process_candle_data_Inl [OF this] show ?frame
      by (simp add: setup_counters_def)
  qed simp
  have b: "s' = s \<or> (\<exists>start. s' = s\<lparr>last_kline_start_time := start\<rparr>)" (is ?same)
    if h: "handle_kline_message L m s = (Inl e, s')"
      and f: "candle_fields L (hd (message_data m)) = Inl e'"
    using handle_kline_message_Inl [OF h]
  proof (elim disjE exE conjE)
    fix candle rest start
    assume md: "message_data m = candle # rest"
      and p: "process_candle_data L candle (s\<lparr>last_kline_start_time := start\<rparr>) = (Inl e, s')"
    from md f have "candle_fields L candle = Inl e'" by simp
    from candle_fields_Inl [OF this, of "s\<lparr>last_kline_start_time := start\<rparr>"] p
    show ?same by auto
  qed simp
  have c: "c' = c \<or> (\<exists>start. c' = c\<lparr>last_kline_start_time_cvd := start\<rparr>)"
    if "handle_kline_message_cvd L m c = (Inl e, c')"
    using that by (rule handle_kline_message_cvd_Inl)
  have d: "snd (handle_bbo_message L b s) = s" if "bbo_entry L b = Inl e"
    using that by (simp add: handle_bbo_message_def)
  from a b c d show ?thesis
    by blast
qed

lemma short_candle_runs:
  "candle_fields lib0 (hd (message_data sample_message_short)) = Inl KeyError"
  "handle_kline_message lib0 sample_message_short init_tracker =
     (Inl KeyError, init_tracker\<lparr>last_kline_start_time := PyInt 60000\<rparr>)"
  "handle_kline_message_cvd lib0 sample_message_short (init_tracker_cvd 100) =
     (Inl KeyError, (init_tracker_cvd 100)\<lparr>last_kline_start_time_cvd := PyInt 60000\<rparr>)"
  "bbo_entry lib0 sample_bbo_short = Inl IndexError"
proof -
  let ?c = "[''start'' \<mapsto> PyInt 60000, ''confirm'' \<mapsto> PyBool True]"
  show f: "candle_fields lib0 (hd (message_data sample_message_short)) = Inl KeyError"
    by (simp add: sample_message_short_def message_data_def candle_fields_def int_item_def
        getitem_def)
  then have f': "candle_fields lib0 ?c = Inl KeyError"
    by (simp add: sample_message_short_def message_data_def)
  show "handle_kline_message lib0 sample_message_short init_tracker =
     (Inl KeyError, init_tracker\<lparr>last_kline_start_time := PyInt 60000\<rparr>)"
    by (simp add: handle_kline_message_def sample_message_short_def message_data_def
        getitem_def candle_fields_Inl [OF f']) (simp add: init_tracker_def)
  have "candle_volumes_cvd lib0 ?c buf = Inl KeyError" for buf
    by (simp add: candle_volumes_cvd_def int_item_def getitem_def)
  then show "handle_kline_message_cvd lib0 sample_message_short (init_tracker_cvd 100) =
     (Inl KeyError, (init_tracker_cvd 100)\<lparr>last_kline_start_time_cvd := PyInt 60000\<rparr>)"
    by (simp add: handle_kline_message_cvd_def sample_message_short_def message_data_def
        getitem_def process_candle_data_cvd_Inl) (simp add: init_tracker_cvd_def)
  show "bbo_entry lib0 sample_bbo_short = Inl IndexError"
    by (simp add: bbo_entry_def level_size_def list_item_def sample_bbo_short_def)
qed

theorem exceptions_frame_witness:
  "fst (handle_kline_message lib0 sample_message tracker_bad_volume) = Inl ValueError
   \<and> setup_counters (snd (handle_kline_message lib0 sample_message tracker_bad_volume))
       = setup_counters tracker_bad_volume
   \<and> last_candle_data (snd (handle_kline_message lib0 sample_message tracker_bad_volume))
       = last_candle_data tracker_bad_volume
   \<and> candle_fields lib0 (hd (message_data sample_message_short)) = Inl KeyError
   \<and> fst (handle_kline_message lib0 sample_message_short init_tracker) = Inl KeyError
   \<and> last_ha_open (snd (handle_kline_message lib0 sample_message_short init_tracker))
       = last_ha_open init_tracker
   \<and> fst (handle_kline_message_cvd lib0 sample_message_short (init_tracker_cvd 100))
       = Inl KeyError
   \<and> cumulative_volume_delta
         (snd (handle_kline_message_cvd lib0 sample_message_short (init_tracker_cvd 100)))
       = cumulative_volume_delta (init_tracker_cvd 100)
   \<and> bbo_entry lib0 sample_bbo_short = Inl IndexError
   \<and> snd (handle_bbo_message lib0 sample_bbo_short init_tracker) = init_tracker"
  using exceptions_frame [where L = lib0 and m = sample_message and s = tracker_bad_volume
      and e = ValueError
      and s' = "snd (handle_kline_message lib0 sample_message tracker_bad_volume)"]
    exceptions_frame [where L = lib0 and m = sample_message_short and s = init_tracker
      and e = KeyError and e' = KeyError and c = "init_tracker_cvd 100"
      and s' = "snd (handle_kline_message lib0 sample_message_short init_tracker)"
      and c' = "snd (handle_kline_message_cvd lib0 sample_message_short (init_tracker_cvd 100))"]
    exceptions_frame [where L = lib0 and b = sample_bbo_short and s = init_tracker
      and e = IndexError]
    bad_volume_run short_candle_runs
  by auto

subsection \<open>Rounding\<close>

lemma alert_implies_entry_check:
  assumes "list_ex is_alert (fst (setup_step r s))"
  shows "check_entry_conditions s r"
proof -
  have "check_entry_conditions t r = check_entry_conditions s r" for t
    by (simp only: check_entry_conditions_iff)
  with assms show ?thesis
    by (auto simp: setup_step_def run_trade_setup_logic_def Let_def split_beta
        split: if_splits)
qed

text \<open>
  C3, as stated, fails. The tracker has seen three green candles; the trades of the
  window are a buy of 54996 and a sell of 45004 and there is no BBO update, so the
  aggression ratio is 0.54996 and the mean imbalance 0.5, both below 0.55. The record
  built for the candle holds the ratio rounded to four places, 0.55, the entry check
  is made on that record, and the strict entry fires. On the ratio as computed the
  check fails.
\<close>

theorem entry_check_on_rounded_ratio:
  "fst (handle_kline_message lib0 sample_message tracker_near_threshold) =
     Inr [Info_candle sample_record, Warn_strict_entry ''1970-01-01 00:01:00,000'']
   \<and> side_volume lib0 ''Buy'' 0 (trade_buffer tracker_near_threshold) = Inr 54996
   \<and> side_volume lib0 ''Sell'' 0 (trade_buffer tracker_near_threshold) = Inr 45004
   \<and> aggression_ratio 54996 45004 = 54996 / 100000
   \<and> agg_ratio sample_record = 55 / 100
   \<and> check_entry_conditions tracker_near_threshold sample_record
   \<and> \<not> check_entry_conditions tracker_near_threshold
         (sample_record\<lparr>agg_ratio := aggression_ratio 54996 45004\<rparr>)"
  by (simp add: near_threshold_run)
     (simp add: tracker_near_threshold_def float_item_def getitem_def sample_trade_items
       lib0_parsers str_float0_samples aggression_ratio_def sample_record_def
       check_entry_conditions_iff)

text \<open>
  C3, amended. The metrics are rounded when the record of the candle is built (lines
  160-169), and that record is what the setup logic receives and what is stored for
  the next candle: the entry check compares \<^verbatim>\<open>agg_ratio\<close> and \<^verbatim>\<open>avg_bbo_imba\<close>
  rounded to four places with the two thresholds, and an alert is written only if the
  check holds on the rounded record. The colour in the record is the one decided on the
  Heikin-Ashi values as computed, and these values, not the ones rounded to five
  places, are stored for the next candle.
\<close>

theorem rounding_in_record:
  assumes "process_candle_data L candle s = (Inr logs, s')"
  shows "\<exists>candle_start_ms candle_end_ms open_price high_price low_price close_price'
           ha_open ha_close relevant_trades kept_trades buy_volume sell_volume r s3 setup_logs.
      candle_fields L candle =
        Inr (candle_start_ms, candle_end_ms, open_price, high_price, low_price, close_price')
      \<and> heikin_ashi (last_ha_open s) (last_ha_close s)
            open_price high_price low_price close_price' = Inr (ha_open, ha_close, HA_color r)
      \<and> drain_trades L candle_start_ms candle_end_ms (trade_buffer s) =
            Inr (relevant_trades, kept_trades)
      \<and> side_volume L ''Buy'' 0 relevant_trades = Inr buy_volume
      \<and> side_volume L ''Sell'' 0 relevant_trades = Inr sell_volume
      \<and> agg_ratio r = py_round (aggression_ratio buy_volume sell_volume) 4
      \<and> avg_bbo_imba r =
            py_round (bbo_imbalance_mean
              (fst (drain_bbo candle_start_ms candle_end_ms (bbo_buffer s)))) 4
      \<and> HA_open r = py_round ha_open 5 \<and> HA_close r = py_round ha_close 5
      \<and> logs = Info_candle r # setup_logs
      \<and> setup_counters s3 = setup_counters s
      \<and> setup_step r s3 = (setup_logs, s')
      \<and> (list_ex is_alert logs \<longrightarrow> check_entry_conditions s r)
      \<and> last_candle_data s' = Some r
      \<and> last_ha_open s' = Some ha_open \<and> last_ha_close s' = Some ha_close"
  using assms
proof (rule process_candle_data_Inr)
  fix candle_start_ms candle_end_ms open_price high_price low_price close_price'
    ha_open ha_close ha_color formatted_timestamp relevant_trades kept_trades
    buy_volume sell_volume r s3 setup_logs
  assume f: "candle_fields L candle =
           Inr (candle_start_ms, candle_end_ms, open_price, high_price, low_price, close_price')"
    and h: "heikin_ashi (last_ha_open s) (last_ha_close s)
           open_price high_price low_price close_price' = Inr (ha_open, ha_close, ha_color)"
    and d: "drain_trades L candle_start_ms candle_end_ms (trade_buffer s) =
           Inr (relevant_trades, kept_trades)"
    and b: "side_volume L ''Buy'' 0 relevant_trades = Inr buy_volume"
    and se: "side_volume L ''Sell'' 0 relevant_trades = Inr sell_volume"
    and r: "r = \<lparr>utc = formatted_timestamp,
             close_price = close_price',
             HA_open = py_round ha_open 5,
             HA_close = py_round ha_close 5,
             HA_color = ha_color,
             agg_ratio = py_round (aggression_ratio buy_volume sell_volume) 4,
             avg_bbo_imba = py_round (bbo_imbalance_mean
                (fst (drain_bbo candle_start_ms candle_end_ms (bbo_buffer s)))) 4\<rparr>"
    and s3: "s3 = s\<lparr>last_ha_open := Some ha_open, last_ha_close := Some ha_close,
               trade_buffer := kept_trades,
               bbo_buffer := snd (drain_bbo candle_start_ms candle_end_ms (bbo_buffer s))\<rparr>"
    and st: "setup_step r s3 = (setup_logs, s')"
    and l: "logs = Info_candle r # setup_logs"
  from st have after: "last_candle_data s' = Some r
      \<and> last_ha_open s' = last_ha_open s3 \<and> last_ha_close s' = last_ha_close s3"
    by (auto simp: setup_step_def run_trade_setup_logic_def Let_def split_beta
        split: if_splits)
  have alert: "list_ex is_alert logs \<longrightarrow> check_entry_conditions s r"
  proof
    assume "list_ex is_alert logs"
    with l st have "list_ex is_alert (fst (setup_step r s3))" by simp
    then have "check_entry_conditions s3 r" by (rule alert_implies_entry_check)
    then show "check_entry_conditions s r" by (simp only: check_entry_conditions_iff)
  qed
  from h r have h': "heikin_ashi (last_ha_open s) (last_ha_close s)
           open_price high_price low_price close_price' = Inr (ha_open, ha_close, HA_color r)"
    by simp
  from s3 have c: "setup_counters s3 = setup_counters s"
    by (simp add: setup_counters_def)
  from r have rr: "agg_ratio r = py_round (aggression_ratio buy_volume sell_volume) 4"
    "avg_bbo_imba r = py_round (bbo_imbalance_mean
              (fst (drain_bbo candle_start_ms candle_end_ms (bbo_buffer s)))) 4"
    "HA_open r = py_round ha_open 5" "HA_close r = py_round ha_close 5"
    by simp_all
  from after s3 have ha: "last_candle_data s' = Some r"
    "last_ha_open s' = Some ha_open" "last_ha_close s' = Some ha_close"
    by simp_all
  from f h' d b se rr l c st alert ha show ?thesis
    by blast
qed

theorem rounding_in_record_witness:
  "\<exists>r setup_logs buy_volume sell_volume.
      fst (process_candle_data lib0 (sample_candle 1 100 110 100 104)
             (tracker_near_threshold\<lparr>last_kline_start_time := PyInt 60000\<rparr>))
        = Inr (Info_candle r # setup_logs)
      \<and> list_ex is_alert setup_logs
      \<and> agg_ratio r = py_round (aggression_ratio buy_volume sell_volume) 4
      \<and> check_entry_conditions (tracker_near_threshold\<lparr>last_kline_start_time := PyInt 60000\<rparr>) r"
proof -
  let ?s = "tracker_near_threshold\<lparr>last_kline_start_time := PyInt 60000\<rparr>"
  let ?p = "process_candle_data lib0 (sample_candle 1 100 110 100 104) ?s"
  have "?p = (Inr [Info_candle sample_record, Warn_strict_entry ''1970-01-01 00:01:00,000''],
              snd ?p)"
    using near_threshold_process by (simp add: prod_eq_iff)
  from rounding_in_record [OF this] obtain r setup_logs buy_volume sell_volume
    where "[Info_candle sample_record, Warn_strict_entry ''1970-01-01 00:01:00,000'']
             = Info_candle r # setup_logs"
      and "agg_ratio r = py_round (aggression_ratio buy_volume sell_volume) 4"
      and "list_ex is_alert
             [Info_candle sample_record, Warn_strict_entry ''1970-01-01 00:01:00,000'']
           \<longrightarrow> check_entry_conditions ?s r"
    by blast
  with near_threshold_process show ?thesis
    by (intro exI [of _ r] exI [of _ setup_logs] exI [of _ buy_volume] exI [of _ sell_volume])
       auto
qed

section \<open>Buffers after a candle\<close>

text \<open>
  When \<^verbatim>\<open>process_candle_data\<close> returns, the two buffers hold exactly the events that
  are later than the end of the window; the setup logic does not touch them.
\<close>

lemma setup_step_buffers:
  "trade_buffer (snd (setup_step r s)) = trade_buffer s
   \<and> bbo_buffer (snd (setup_step r s)) = bbo_buffer s"
  by (simp add: setup_step_def run_trade_setup_logic_def Let_def split_beta)

lemma buffers_after_candle:
  assumes "process_candle_data L candle s = (Inr logs, s')"
    and "candle_fields L candle = Inr (candle_start_ms, candle_end_ms, op, hi, lo, cl)"
  shows "trade_buffer s' = filter (\<lambda>t. candle_end_ms < trade_time L t) (trade_buffer s)
       \<and> bbo_buffer s' = filter (\<lambda>x. candle_end_ms < ts x) (bbo_buffer s)"
  using assms(1)
proof (rule process_candle_data_Inr)
  fix a b p1 p2 p3 p4 ha_open ha_close relevant_trades kept_trades r s3 setup_logs
  assume f: "candle_fields L candle = Inr (a, b, p1, p2, p3, p4)"
    and d: "drain_trades L a b (trade_buffer s) = Inr (relevant_trades, kept_trades)"
    and s3: "s3 = s\<lparr>last_ha_open := Some ha_open, last_ha_close := Some ha_close,
               trade_buffer := kept_trades,
               bbo_buffer := snd (drain_bbo a b (bbo_buffer s))\<rparr>"
    and st: "setup_step r s3 = (setup_logs, s')"
  from f assms(2) have ab: "a = candle_start_ms" "b = candle_end_ms"
    by simp_all
  from d obtain rel where "filter_err (trade_in_window L a b) (trade_buffer s) = Inr rel"
    unfolding drain_trades_def by (auto split: sum.splits)
  then have "\<forall>t\<in>set (trade_buffer s). readable_time L t"
    by (rule in_window_Inr_readable)
  from after_window_readable [OF this, of b] d
  have "kept_trades = filter (\<lambda>t. b < trade_time L t) (trade_buffer s)"
    unfolding drain_trades_def by (auto split: sum.splits)
  with setup_step_buffers [of r s3] st s3 ab show ?thesis
    by (simp add: drain_bbo_def)
qed

text \<open>
  The trade handler stores what it is given. A buffered trade whose timestamp cannot be
  read makes every candle raise at line 147, before the buffer is assigned, so the trade
  stays where it is.
\<close>

lemma filter_err_Inl:
  "x \<in> set xs \<Longrightarrow> c x = Inl e \<Longrightarrow> \<exists>e'. filter_err c xs = Inl e'"
  by (induction xs) (auto split: sum.splits)

lemma unreadable_trade_stays:
  assumes "t \<in> set (trade_buffer s)" and "\<not> readable_time L t"
  shows "(\<exists>e. fst (process_candle_data L candle s) = Inl e)
       \<and> trade_buffer (snd (process_candle_data L candle s)) = trade_buffer s"
proof -
  from assms(2) obtain e where "int_item L t ''T'' = Inl e"
    by (auto simp: readable_time_def split: sum.splits)
  then have w: "trade_in_window L a b t = Inl e" for a b
    by (simp add: trade_in_window_def)
  have fe: "\<exists>e'. filter_err (trade_in_window L a b) (trade_buffer s) = Inl e'" for a b
    by (rule filter_err_Inl [where c = "trade_in_window L a b", OF assms(1) w])
  have "\<exists>e'. drain_trades L a b (trade_buffer s) = Inl e'" for a b
    using fe [of a b] by (auto simp: drain_trades_def split: sum.splits)
  then obtain ef where d: "drain_trades L a b (trade_buffer s) = Inl (ef a b)" for a b
    by metis
  show ?thesis
    unfolding process_candle_data_def Let_def
    by (auto simp: d split_beta split: sum.splits)
qed

end
